theory Spec2Isabelle
  imports Complex_Main "HOL-Library.AList"
begin

section \<open>Numbers, vectors and the host environment\<close>

text \<open>
  The visualizer layers of \<^verbatim>\<open>src/visualizers\<close> are embedded function by function.
  A TypeScript \<^verbatim>\<open>number\<close> is a real number here: the embedding follows the arithmetic
  the code writes down, not the rounding of IEEE doubles, and has no NaN or infinity.
  The only quotient whose divisor is read from the state is the age ratio of
  \<^verbatim>\<open>updateBubbles\<close>; theorems that depend on it require the divisor to be non-zero.
  Rounding is written out in one place, the spark count of \<^verbatim>\<open>onPlasmaNoteOff\<close>, where
  \<^verbatim>\<open>Math.floor\<close> turns the last bit of a quotient into one spark more or less.

  \<^verbatim>\<open>THREE.Vector4\<close> and \<^verbatim>\<open>THREE.Vector2\<close> are records of their components
  (\<^verbatim>\<open>new THREE.Vector4()\<close> is \<open>(0, 0, 0, 1)\<close> in three.js). Every slot of a pool and
  every entry of a uniform array is an object of its own (each comes from an
  \<^verbatim>\<open>Array.from\<close> factory), and \<^verbatim>\<open>set\<close> and \<^verbatim>\<open>copy\<close> write components, so an
  in-place mutation of the object at index \<open>i\<close> is a list update at \<open>i\<close>.
\<close>

record Vector2 =
  v2x :: real
  v2y :: real

record Vector4 =
  v4x :: real
  v4y :: real
  v4z :: real
  v4w :: real

record Color =
  col_r :: real
  col_g :: real
  col_b :: real

abbreviation vec4 :: "real \<Rightarrow> real \<Rightarrow> real \<Rightarrow> real \<Rightarrow> Vector4" where
  "vec4 a b c d \<equiv> \<lparr>v4x = a, v4y = b, v4z = c, v4w = d\<rparr>"

definition new_Vector4 :: Vector4 where
  "new_Vector4 = vec4 0 0 0 1"

text \<open>\<^verbatim>\<open>Vector4.multiplyScalar\<close> scales all four components.\<close>

definition multiplyScalar :: "Vector4 \<Rightarrow> real \<Rightarrow> Vector4" where
  "multiplyScalar v s = vec4 (v4x v * s) (v4y v * s) (v4z v * s) (v4w v * s)"

text \<open>
  Reading a field of \<^verbatim>\<open>undefined\<close> (an index outside an array) throws a TypeError in
  JavaScript; it is the only exception the layers can raise.
\<close>

datatype error = TypeError

text \<open>
  \<^verbatim>\<open>Math.random()\<close> and \<^verbatim>\<open>performance.now()\<close> read the host. The environment holds
  the two sequences of readings and how many of each have been consumed; every call
  takes the next reading.
\<close>

record env =
  random_src :: "nat \<Rightarrow> real"
  random_pos :: nat
  clock_src :: "nat \<Rightarrow> real"
  clock_pos :: nat

definition Math_random :: "env \<Rightarrow> real \<times> env" where
  "Math_random e = (random_src e (random_pos e), e\<lparr>random_pos := Suc (random_pos e)\<rparr>)"

definition performance_now :: "env \<Rightarrow> real \<times> env" where
  "performance_now e = (clock_src e (clock_pos e), e\<lparr>clock_pos := Suc (clock_pos e)\<rparr>)"

text \<open>\<^verbatim>\<open>src/utils/helpers.ts\<close> and the two functions of \<^verbatim>\<open>THREE.MathUtils\<close> in use.\<close>

definition clamp :: "real \<Rightarrow> real \<Rightarrow> real \<Rightarrow> real" where
  "clamp v a b = max a (min b v)"

definition lerp :: "real \<Rightarrow> real \<Rightarrow> real \<Rightarrow> real" where
  "lerp a b t = (1 - t) * a + t * b"

definition noteToHue :: "nat \<Rightarrow> real" where
  "noteToHue n = real (n mod 12) * 30"

definition noteToX :: "nat \<Rightarrow> real" where
  "noteToX n = real n / 127"

text \<open>
  \<^verbatim>\<open>for (let i = 0; i < n; i++) body\<close>: the body runs at \<open>0, \<dots>, n - 1\<close> in this
  order, and an exception ends the loop.
\<close>

primrec for_upto :: "nat \<Rightarrow> (nat \<Rightarrow> 's \<Rightarrow> error + 's) \<Rightarrow> 's \<Rightarrow> error + 's" where
  "for_upto 0 body s = Inr s"
| "for_upto (Suc n) body s =
     (case for_upto n body s of Inl err \<Rightarrow> Inl err | Inr s' \<Rightarrow> body n s')"

section \<open>Slots and pools\<close>

text \<open>
  The slot types of the layers share their fields: every slot has \<^verbatim>\<open>data\<close> and
  \<^verbatim>\<open>active\<close>; \<^verbatim>\<open>PlasmaParticleData\<close> and \<^verbatim>\<open>SolarParticleData\<close> add \<^verbatim>\<open>velocity\<close>,
  \<^verbatim>\<open>BubbleData\<close> adds \<^verbatim>\<open>age\<close> to that, and so on.
\<close>

record Slot =
  data :: Vector4
  active :: bool

record ParticleData = Slot +
  velocity :: Vector4

record BubbleData = ParticleData +
  age :: real

record TreeSeed = Slot +
  colorData :: Vector4

record Wave = Slot +
  color :: Vector4
  speed :: real
  decay :: real

text \<open>\<^verbatim>\<open>pool.find(s => !s.active)\<close>, as the index of the slot it returns.\<close>

primrec find_inactive :: "'a Slot_scheme list \<Rightarrow> nat option" where
  "find_inactive [] = None"
| "find_inactive (s # ss) =
     (if \<not> active s then Some 0 else map_option Suc (find_inactive ss))"

text \<open>
  \<^verbatim>\<open>let s = pool.find(s => !s.active); if (!s) s = pool[0];\<close> On an empty pool
  \<^verbatim>\<open>pool[0]\<close> is \<^verbatim>\<open>undefined\<close> and the first write to it throws.
\<close>

definition find_inactive_or_first :: "'a Slot_scheme list \<Rightarrow> error + nat" where
  "find_inactive_or_first pool =
     (case find_inactive pool of
        Some i \<Rightarrow> Inr i
      | None \<Rightarrow> if pool = [] then Inl TypeError else Inr 0)"

text \<open>The part of \<^verbatim>\<open>ShaderLayer\<close> the layer functions read or write.\<close>

record ShaderLayer =
  u_time :: real

section \<open>bubbles.ts\<close>

definition MAX_BUBBLES :: nat where
  "MAX_BUBBLES = 100"

record BubbleLayer = ShaderLayer +
  u_bubbles :: "Vector4 list"
  bubbles :: "BubbleData list"

definition createBubblesLayer :: BubbleLayer where
  "createBubblesLayer =
     \<lparr>u_time = 0,
      u_bubbles = replicate MAX_BUBBLES (vec4 0 0 0 0),
      bubbles = replicate MAX_BUBBLES
        \<lparr>data = new_Vector4, active = False, velocity = new_Vector4, age = 0\<rparr>\<rparr>"

definition onBubbleNoteOn ::
  "env \<Rightarrow> BubbleLayer \<Rightarrow> real \<Rightarrow> real \<Rightarrow> error + (BubbleLayer \<times> env)" where
  "onBubbleNoteOn e layer vel hue =
     (case find_inactive_or_first (bubbles layer) of
        Inl err \<Rightarrow> Inl err
      | Inr i \<Rightarrow>
          let (r_life, e1) = Math_random e;
              life = 3.0 + r_life * 3.0;
              initialRadius = 0.03 + (vel / 127) * 0.12;
              (r_x, e2) = Math_random e1;
              (r_vx, e3) = Math_random e2;
              (r_vy, e4) = Math_random e3;
              bubble = (bubbles layer ! i)
                \<lparr>active := True, age := 0,
                 data := vec4 r_x (- 0.1) 0 (hue / 360),
                 velocity := vec4 ((r_vx - 0.5) * 0.05) (0.1 + r_vy * 0.08) initialRadius life\<rparr>
          in Inr (layer\<lparr>bubbles := (bubbles layer)[i := bubble]\<rparr>, e4))"

definition onBubbleNoteOff ::
  "env \<Rightarrow> BubbleLayer \<Rightarrow> real \<Rightarrow> real \<Rightarrow> error + (BubbleLayer \<times> env)" where
  "onBubbleNoteOff e layer vel hue = Inr (layer, e)"

text \<open>
  One pass of the loop of \<^verbatim>\<open>updateBubbles\<close> over an active bubble: the bubble after
  it, and the record set into \<^verbatim>\<open>u_bubbles\<close> at its index.
\<close>

definition updateBubble :: "real \<Rightarrow> real \<Rightarrow> BubbleData \<Rightarrow> BubbleData \<times> Vector4" where
  "updateBubble now deltaSeconds bubble =
     (let x1 = v4x (data bubble) + v4x (velocity bubble) * deltaSeconds;
          y1 = v4y (data bubble) + v4y (velocity bubble) * deltaSeconds;
          x2 = x1 + sin (now * 1.5 + y1 * 15.0) * 0.0003;
          age1 = age bubble + deltaSeconds;
          ageRatio = age1 / v4w (velocity bubble);
          moved = bubble\<lparr>data := (data bubble)\<lparr>v4x := x2, v4y := y1\<rparr>, age := age1\<rparr>
      in if ageRatio > 1.0 \<or> y1 > 1.1 then (moved\<lparr>active := False\<rparr>, vec4 0 0 0 0)
         else
           let popInDuration = 0.1;
               scale = (if ageRatio < popInDuration
                        then v4z (velocity bubble) * (ageRatio / popInDuration)
                        else v4z (velocity bubble) *
                             (1.0 - (ageRatio - popInDuration) / (1.0 - popInDuration)));
               grown = moved\<lparr>data := (data moved)\<lparr>v4z := max 0.0 scale\<rparr>\<rparr>
           in (grown, data grown))"

definition updateBubbles_body :: "real \<Rightarrow> real \<Rightarrow> nat \<Rightarrow> BubbleLayer \<Rightarrow> error + BubbleLayer" where
  "updateBubbles_body now deltaSeconds i layer =
     (if length (bubbles layer) \<le> i \<or> length (u_bubbles layer) \<le> i then Inl TypeError
      else if \<not> active (bubbles layer ! i)
      then Inr (layer\<lparr>u_bubbles := (u_bubbles layer)[i := vec4 0 0 0 0]\<rparr>)
      else
        let (bubble, u) = updateBubble now deltaSeconds (bubbles layer ! i)
        in Inr (layer\<lparr>bubbles := (bubbles layer)[i := bubble],
                       u_bubbles := (u_bubbles layer)[i := u]\<rparr>))"

definition updateBubbles :: "BubbleLayer \<Rightarrow> real \<Rightarrow> error + BubbleLayer" where
  "updateBubbles layer dt =
     (let now = u_time layer;
          deltaSeconds = min (dt / 1000) 0.05
      in for_upto MAX_BUBBLES (updateBubbles_body now deltaSeconds) layer)"

section \<open>plasma.ts\<close>

definition MAX_PARTICLES :: nat where
  "MAX_PARTICLES = 100"

record PlasmaLayer = ShaderLayer +
  u_particles :: "Vector4 list"
  particles :: "ParticleData list"

definition createPlasmaLayer :: PlasmaLayer where
  "createPlasmaLayer =
     \<lparr>u_time = 0,
      u_particles = replicate MAX_PARTICLES new_Vector4,
      particles = replicate MAX_PARTICLES
        \<lparr>data = new_Vector4, active = False, velocity = new_Vector4\<rparr>\<rparr>"

text \<open>
  \<^verbatim>\<open>Vector4.set(x, y, z, w)\<close> takes the components in this order, so \<^verbatim>\<open>addHotspot\<close>
  and \<^verbatim>\<open>addSpark\<close> store the lifespan in \<^verbatim>\<open>velocity.z\<close> and its inverse in
  \<^verbatim>\<open>velocity.w\<close>.
\<close>

definition addHotspot :: "real \<Rightarrow> real \<Rightarrow> PlasmaLayer \<times> env \<Rightarrow> PlasmaLayer \<times> env" where
  "addHotspot xNorm vel = (\<lambda>(layer, e).
     case find_inactive (particles layer) of
       None \<Rightarrow> (layer, e)
     | Some i \<Rightarrow>
         let (r_life, e1) = Math_random e;
             life = 2.5 + r_life * 3.0;
             size0 = 0.1 + (vel / 127) * 0.1;
             (r_vx, e2) = Math_random e1;
             (r_vy, e3) = Math_random e2;
             p = (particles layer ! i)
               \<lparr>active := True,
                data := vec4 xNorm 0.1 size0 0.0,
                velocity := vec4 ((r_vx - 0.5) * 0.05) (0.1 + r_vy * 0.1) life (1.0 / life)\<rparr>
         in (layer\<lparr>particles := (particles layer)[i := p]\<rparr>, e3))"

definition addSpark :: "real \<Rightarrow> real \<Rightarrow> PlasmaLayer \<times> env \<Rightarrow> PlasmaLayer \<times> env" where
  "addSpark xNorm vel = (\<lambda>(layer, e).
     case find_inactive (particles layer) of
       None \<Rightarrow> (layer, e)
     | Some i \<Rightarrow>
         let (r_life, e1) = Math_random e;
             life = 0.6 + r_life * 0.8;
             size0 = 0.05 + (vel / 127) * 0.08;
             (r_speed, e2) = Math_random e1;
             speed0 = 0.2 + (vel / 127) * 0.3 + r_speed * 0.1;
             (r_angle, e3) = Math_random e2;
             angle = r_angle * pi * 2;
             p = (particles layer ! i)
               \<lparr>active := True,
                data := vec4 xNorm 0.5 size0 0.0,
                velocity := vec4 (cos angle * speed0) (sin angle * speed0) life (1.0 / life)\<rparr>
         in (layer\<lparr>particles := (particles layer)[i := p]\<rparr>, e3))"

text \<open>
  The number of passes of \<^verbatim>\<open>for (let i = 0; i < count; i++)\<close>: none when \<open>count\<close>
  is not positive.
\<close>

definition plasmaNoteOnCount :: "real \<Rightarrow> int" where
  "plasmaNoteOnCount vel = 1 + \<lfloor>(vel / 127) * 2\<rfloor>"

definition onPlasmaNoteOn :: "env \<Rightarrow> PlasmaLayer \<Rightarrow> real \<Rightarrow> real \<Rightarrow> PlasmaLayer \<times> env" where
  "onPlasmaNoteOn e layer xNorm vel =
     (addHotspot xNorm vel ^^ nat (plasmaNoteOnCount vel)) (layer, e)"

text \<open>
  \<^verbatim>\<open>onPlasmaNoteOff\<close> takes \<^verbatim>\<open>Math.floor((flareVel / 127) * 10)\<close>, and the floor of a
  double can differ from the floor of the exact quotient: at velocity 0 and a hold of
  635 ms the doubles give \<open>(25.4 / 127) * 10 = 1.9999999999999998\<close>. The parameter \<open>fl\<close>
  stands for the rounding of a real to the nearest double, which every arithmetic
  operation of this computation applies to its exact result; \<^verbatim>\<open>Math.min\<close> and the
  integer sum \<open>3 + \<dots>\<close> are exact. The count \<open>1 + Math.floor((vel / 127) * 2)\<close> of
  \<^verbatim>\<open>onPlasmaNoteOn\<close> needs no rounding for the integer velocities of MIDI: there
  \<open>2 * vel / 127\<close> is an integer (at 0 and 127, where the doubles are exact) or at least
  \<open>1 / 127\<close> away from one.
\<close>

definition plasmaFlareVel :: "(real \<Rightarrow> real) \<Rightarrow> real \<Rightarrow> real \<Rightarrow> real" where
  "plasmaFlareVel fl vel heldMs = min 127 (fl (vel + fl (heldMs / 25)))"

definition plasmaNoteOffCount :: "(real \<Rightarrow> real) \<Rightarrow> real \<Rightarrow> real \<Rightarrow> int" where
  "plasmaNoteOffCount fl vel heldMs =
     3 + \<lfloor>fl (fl (plasmaFlareVel fl vel heldMs / 127) * 10)\<rfloor>"

definition onPlasmaNoteOff ::
  "(real \<Rightarrow> real) \<Rightarrow> env \<Rightarrow> PlasmaLayer \<Rightarrow> real \<Rightarrow> real \<Rightarrow> real \<Rightarrow> PlasmaLayer \<times> env" where
  "onPlasmaNoteOff fl e layer xNorm vel heldMs =
     (addSpark xNorm (plasmaFlareVel fl vel heldMs) ^^ nat (plasmaNoteOffCount fl vel heldMs))
       (layer, e)"

text \<open>
  One pass of the loop of \<^verbatim>\<open>updatePlasma\<close> over an active particle, \<open>r\<close> being the
  reading of \<^verbatim>\<open>Math.random()\<close> the pass takes.
\<close>

definition updateParticle :: "real \<Rightarrow> real \<Rightarrow> ParticleData \<Rightarrow> ParticleData" where
  "updateParticle deltaSeconds r p =
     (let v1 = (velocity p)\<lparr>v4y := v4y (velocity p) - 0.25 * deltaSeconds\<rparr>;
          v2 = v1\<lparr>v4x := v4x v1 + (r - 0.5) * 0.2 * deltaSeconds\<rparr>;
          v3 = multiplyScalar v2 0.98;
          x1 = v4x (data p) + v4x v3 * deltaSeconds;
          y1 = v4y (data p) + v4y v3 * deltaSeconds;
          ageRatio = v4w (data p) + deltaSeconds * v4z v3;
          d1 = (data p)\<lparr>v4x := x1, v4y := y1, v4w := ageRatio\<rparr>
      in if ageRatio > 1.0
         then p\<lparr>velocity := v3, active := False, data := d1\<lparr>v4z := 0\<rparr>\<rparr>
         else p\<lparr>velocity := v3, data := d1\<rparr>)"

definition updatePlasma_body ::
  "real \<Rightarrow> nat \<Rightarrow> PlasmaLayer \<times> env \<Rightarrow> error + (PlasmaLayer \<times> env)" where
  "updatePlasma_body deltaSeconds i = (\<lambda>(layer, e).
     if length (particles layer) \<le> i \<or> length (u_particles layer) \<le> i then Inl TypeError
     else if \<not> active (particles layer ! i)
     then Inr (layer\<lparr>u_particles := (u_particles layer)[i := (u_particles layer ! i)\<lparr>v4z := 0.0\<rparr>]\<rparr>, e)
     else
       let (r, e1) = Math_random e;
           p = updateParticle deltaSeconds r (particles layer ! i)
       in Inr (layer\<lparr>particles := (particles layer)[i := p],
                      u_particles := (u_particles layer)[i := data p]\<rparr>, e1))"

definition updatePlasma :: "env \<Rightarrow> PlasmaLayer \<Rightarrow> real \<Rightarrow> error + (PlasmaLayer \<times> env)" where
  "updatePlasma e layer dt =
     (let (t, e1) = performance_now e;
          now = t / 1000;
          layer1 = layer\<lparr>u_time := now\<rparr>;
          deltaSeconds = min (dt / 1000) 0.05
      in for_upto MAX_PARTICLES (updatePlasma_body deltaSeconds) (layer1, e1))"

section \<open>trees.ts\<close>

definition MAX_SEEDS :: nat where
  "MAX_SEEDS = 20"

record TreeLayer = ShaderLayer +
  u_seeds :: "Vector4 list"
  u_seed_colors :: "Vector4 list"
  seeds :: "TreeSeed list"

definition createTreesLayer :: TreeLayer where
  "createTreesLayer =
     \<lparr>u_time = 0,
      u_seeds = replicate MAX_SEEDS new_Vector4,
      u_seed_colors = replicate MAX_SEEDS new_Vector4,
      seeds = replicate MAX_SEEDS
        \<lparr>data = new_Vector4, active = False, colorData = new_Vector4\<rparr>\<rparr>"

definition onTreeNoteOn ::
  "env \<Rightarrow> TreeLayer \<Rightarrow> nat \<Rightarrow> real \<Rightarrow> Color \<Rightarrow> error + (TreeLayer \<times> env)" where
  "onTreeNoteOn e layer note vel c =
     (case find_inactive_or_first (seeds layer) of
        Inl err \<Rightarrow> Inl err
      | Inr i \<Rightarrow>
          let (r_y, e1) = Math_random e;
              seed = (seeds layer ! i)
                \<lparr>active := True,
                 data := vec4 (noteToX note) r_y (u_time layer) (0.1 + (vel / 127) * 0.3),
                 colorData := vec4 (col_r c) (col_g c) (col_b c) 1.0\<rparr>
          in Inr (layer\<lparr>seeds := (seeds layer)[i := seed]\<rparr>, e1))"

definition onTreeNoteOff ::
  "env \<Rightarrow> TreeLayer \<Rightarrow> nat \<Rightarrow> real \<Rightarrow> real \<Rightarrow> error + (TreeLayer \<times> env)" where
  "onTreeNoteOff e layer note vel heldMs = Inr (layer, e)"

definition updateSeed :: "real \<Rightarrow> real \<Rightarrow> TreeSeed \<Rightarrow> TreeSeed" where
  "updateSeed now deltaSeconds seed =
     (let faded = seed\<lparr>colorData :=
            (colorData seed)\<lparr>v4w := max 0.0 (v4w (colorData seed) - deltaSeconds * 2.0)\<rparr>\<rparr>
      in if now - v4z (data faded) > 20.0
         then faded\<lparr>active := False, data := vec4 0 0 0 0, colorData := vec4 0 0 0 0\<rparr>
         else faded)"

definition updateTrees_body :: "real \<Rightarrow> real \<Rightarrow> nat \<Rightarrow> TreeLayer \<Rightarrow> error + TreeLayer" where
  "updateTrees_body now deltaSeconds i layer =
     (if length (seeds layer) \<le> i \<or> length (u_seeds layer) \<le> i
         \<or> length (u_seed_colors layer) \<le> i then Inl TypeError
      else if active (seeds layer ! i)
      then
        let seed = updateSeed now deltaSeconds (seeds layer ! i)
        in Inr (layer\<lparr>seeds := (seeds layer)[i := seed],
                       u_seeds := (u_seeds layer)[i := data seed],
                       u_seed_colors := (u_seed_colors layer)[i := colorData seed]\<rparr>)
      else Inr (layer\<lparr>u_seeds := (u_seeds layer)[i := vec4 0 0 0 0],
                      u_seed_colors := (u_seed_colors layer)[i := vec4 0 0 0 0]\<rparr>))"

definition updateTrees :: "env \<Rightarrow> TreeLayer \<Rightarrow> real \<Rightarrow> error + (TreeLayer \<times> env)" where
  "updateTrees e layer dt =
     (let (t, e1) = performance_now e;
          now = t / 1000;
          layer1 = layer\<lparr>u_time := now\<rparr>;
          deltaSeconds = min (dt / 1000) 0.05
      in case for_upto MAX_SEEDS (updateTrees_body now deltaSeconds) layer1 of
           Inl err \<Rightarrow> Inl err
         | Inr layer2 \<Rightarrow> Inr (layer2, e1))"

section \<open>waves.ts and water.ts\<close>

text \<open>
  The two ripple layers share \<^verbatim>\<open>WaveLayer\<close>. Their pool is an array that starts empty,
  grows by \<^verbatim>\<open>push\<close> and is cut back before a push once it holds 30 ripples; the
  uniform array has 32 entries.
\<close>

record Ripple =
  ripple_x :: real
  ripple_y :: real
  strength :: real
  birth :: real
  hue :: real

record WaveLayer = ShaderLayer +
  u_ripples :: "Vector4 list"
  u_ripple_count :: nat
  ripples :: "Ripple list"

definition MAX_RIPPLES :: nat where
  "MAX_RIPPLES = 30"

definition createWavesLayer :: WaveLayer where
  "createWavesLayer =
     \<lparr>u_time = 0, u_ripples = replicate 32 new_Vector4, u_ripple_count = 0, ripples = []\<rparr>"

definition createWaterLayer :: WaveLayer where
  "createWaterLayer =
     \<lparr>u_time = 0, u_ripples = replicate 32 new_Vector4, u_ripple_count = 0, ripples = []\<rparr>"

definition addWaveRipple :: "env \<Rightarrow> WaveLayer \<Rightarrow> real \<Rightarrow> real \<Rightarrow> WaveLayer \<times> env" where
  "addWaveRipple e layer xNorm vel =
     (let kept = (if length (ripples layer) \<ge> MAX_RIPPLES then tl (ripples layer)
                  else ripples layer);
          (r_y, e1) = Math_random e;
          (t, e2) = performance_now e1
      in (layer\<lparr>ripples := kept @
            [\<lparr>ripple_x = xNorm, ripple_y = 0.5 + (r_y - 0.5) * 0.5,
              strength = (vel / 127) * 0.15, birth = t / 1000, hue = 0\<rparr>]\<rparr>, e2))"

definition onWaveNoteOn :: "env \<Rightarrow> WaveLayer \<Rightarrow> real \<Rightarrow> real \<Rightarrow> WaveLayer \<times> env" where
  "onWaveNoteOn e layer xNorm vel = addWaveRipple e layer xNorm vel"

definition waveNoteOffStrength :: "real \<Rightarrow> real \<Rightarrow> real" where
  "waveNoteOffStrength vel heldMs = min 127 (vel + min 100 (heldMs / 15))"

definition onWaveNoteOff :: "env \<Rightarrow> WaveLayer \<Rightarrow> real \<Rightarrow> real \<Rightarrow> real \<Rightarrow> WaveLayer \<times> env" where
  "onWaveNoteOff e layer xNorm vel heldMs =
     addWaveRipple e layer xNorm (waveNoteOffStrength vel heldMs * 1.5)"

text \<open>
  The marshalling loop shared by \<^verbatim>\<open>updateWaves\<close> and \<^verbatim>\<open>updateWater\<close>; \<open>rec\<close> is the
  record the layer writes for a ripple.
\<close>

definition updateRipples_body ::
  "(Ripple \<Rightarrow> Vector4) \<Rightarrow> nat \<Rightarrow> WaveLayer \<Rightarrow> error + WaveLayer" where
  "updateRipples_body rec i layer =
     (if length (ripples layer) \<le> i \<or> length (u_ripples layer) \<le> i then Inl TypeError
      else Inr (layer\<lparr>u_ripples := (u_ripples layer)[i := rec (ripples layer ! i)]\<rparr>))"

definition updateWaves :: "env \<Rightarrow> WaveLayer \<Rightarrow> real \<Rightarrow> error + (WaveLayer \<times> env)" where
  "updateWaves e layer dt =
     (let (t, e1) = performance_now e;
          now = t / 1000;
          layer1 = layer\<lparr>u_time := now\<rparr>;
          layer2 = layer1\<lparr>ripples := filter (\<lambda>r. now - birth r < 8.0) (ripples layer1)\<rparr>;
          numRipples = min (length (ripples layer2)) 32;
          layer3 = layer2\<lparr>u_ripple_count := numRipples\<rparr>
      in case for_upto numRipples
                (updateRipples_body (\<lambda>r. vec4 (ripple_x r) (ripple_y r) (strength r) (birth r)))
                layer3 of
           Inl err \<Rightarrow> Inl err
         | Inr layer4 \<Rightarrow> Inr (layer4, e1))"

text \<open>
  The scan of \<^verbatim>\<open>addWaterRipple\<close> for the ripple with the smallest birth time, from
  index 1 on, and \<^verbatim>\<open>splice(index, 1)\<close>.
\<close>

definition oldest_ripple_index :: "Ripple list \<Rightarrow> nat" where
  "oldest_ripple_index rs =
     fold (\<lambda>i oldest. if birth (rs ! i) < birth (rs ! oldest) then i else oldest)
       [1..<length rs] 0"

definition splice1 :: "nat \<Rightarrow> 'a list \<Rightarrow> 'a list" where
  "splice1 i xs = take i xs @ drop (Suc i) xs"

definition addWaterRipple ::
  "env \<Rightarrow> WaveLayer \<Rightarrow> real \<Rightarrow> real \<Rightarrow> real \<Rightarrow> WaveLayer \<times> env" where
  "addWaterRipple e layer xNorm vel h =
     (let kept = (if length (ripples layer) \<ge> MAX_RIPPLES
                  then splice1 (oldest_ripple_index (ripples layer)) (ripples layer)
                  else ripples layer);
          (t, e1) = performance_now e
      in (layer\<lparr>ripples := kept @
            [\<lparr>ripple_x = xNorm, ripple_y = 0.5,
              strength = (vel / 127) * 0.5 + 0.1, birth = t / 1000, hue = h\<rparr>]\<rparr>, e1))"

definition onWaterNoteOn ::
  "env \<Rightarrow> WaveLayer \<Rightarrow> real \<Rightarrow> real \<Rightarrow> real \<Rightarrow> WaveLayer \<times> env" where
  "onWaterNoteOn e layer xNorm vel h = addWaterRipple e layer xNorm vel h"

definition waterNoteOffStrength :: "real \<Rightarrow> real \<Rightarrow> real" where
  "waterNoteOffStrength vel heldMs = min 127 (vel + min 80 (heldMs / 20))"

definition onWaterNoteOff ::
  "env \<Rightarrow> WaveLayer \<Rightarrow> real \<Rightarrow> real \<Rightarrow> real \<Rightarrow> WaveLayer \<times> env" where
  "onWaterNoteOff e layer xNorm vel heldMs =
     (let (r_hue, e1) = Math_random e;
          h = (r_hue * 360) / 360
      in addWaterRipple e1 layer xNorm (waterNoteOffStrength vel heldMs * 1.2) h)"

definition updateWater :: "env \<Rightarrow> WaveLayer \<Rightarrow> real \<Rightarrow> error + (WaveLayer \<times> env)" where
  "updateWater e layer dt =
     (let (t, e1) = performance_now e;
          now = t / 1000;
          layer1 = layer\<lparr>u_time := now\<rparr>;
          layer2 = layer1\<lparr>ripples := filter (\<lambda>r. now - birth r < 7.0) (ripples layer1)\<rparr>;
          numRipples = min (length (ripples layer2)) 32;
          layer3 = layer2\<lparr>u_ripple_count := numRipples\<rparr>
      in case for_upto numRipples
                (updateRipples_body (\<lambda>r. vec4 (ripple_x r) (hue r) (strength r) (birth r)))
                layer3 of
           Inl err \<Rightarrow> Inl err
         | Inr layer4 \<Rightarrow> Inr (layer4, e1))"

section \<open>SolarLayer_WavesAutoNotes.ts\<close>

definition MAX_FLARES :: nat where
  "MAX_FLARES = 48"

definition MAX_WAVES :: nat where
  "MAX_WAVES = 96"

record HoldState =
  startMs :: real
  lastSpawnMs :: real
  origin :: Vector2
  hold_color :: Color

text \<open>
  \<^verbatim>\<open>holds\<close> is a JavaScript \<^verbatim>\<open>Map\<close>: \<^verbatim>\<open>forEach\<close> visits the entries in the order
  their keys were first inserted, and \<^verbatim>\<open>set\<close> on a key already present replaces the
  value where it stands. It is an association list with \<open>AList.update\<close>,
  \<open>AList.delete\<close> and \<open>map_of\<close>.
\<close>

record SolarState =
  rotSpeed :: real
  emaEnergy :: real
  emaPitch :: real
  emaPitchVar :: real
  activeNotes :: "nat set"
  holds :: "(nat \<times> HoldState) list"
  lastNoteTs :: real

record SolarLayer = ShaderLayer +
  u_params :: Vector4
  u_rotation :: real
  u_flareBoost :: real
  u_flares :: "Vector4 list"
  u_waves :: "Vector4 list"
  u_waveColor :: "Vector4 list"
  u_color :: Vector2
  flares :: "ParticleData list"
  waves :: "Wave list"
  state :: SolarState

definition createSolarLayer :: "env \<Rightarrow> SolarLayer \<times> env" where
  "createSolarLayer e =
     (let (t, e1) = performance_now e
      in (\<lparr>u_time = 0,
           u_params = vec4 0.22 0.35 0.35 0.30,
           u_rotation = 0,
           u_flareBoost = 0,
           u_flares = replicate MAX_FLARES new_Vector4,
           u_waves = replicate MAX_WAVES new_Vector4,
           u_waveColor = replicate MAX_WAVES new_Vector4,
           u_color = \<lparr>v2x = 0.8, v2y = 0.0\<rparr>,
           flares = replicate MAX_FLARES
             \<lparr>data = new_Vector4, active = False, velocity = new_Vector4\<rparr>,
           waves = replicate MAX_WAVES
             \<lparr>data = new_Vector4, active = False, color = new_Vector4, speed = 0, decay = 0\<rparr>,
           state = \<lparr>rotSpeed = 0.04, emaEnergy = 0, emaPitch = 60, emaPitchVar = 0,
                    activeNotes = {}, holds = [], lastNoteTs = t\<rparr>\<rparr>, e1))"

text \<open>
  \<^verbatim>\<open>THREE.Color.setHSL\<close> belongs to three.js and is a parameter \<open>setHSL\<close> of the
  functions that reach it.
\<close>

definition hsvToRgb :: "(real \<Rightarrow> real \<Rightarrow> real \<Rightarrow> Color) \<Rightarrow> real \<Rightarrow> real \<Rightarrow> real \<Rightarrow> Color" where
  "hsvToRgb setHSL h s v = setHSL h s v"

definition noteToDiskXY :: "nat \<Rightarrow> real \<times> real" where
  "noteToDiskXY note =
     (let pc = note mod 12;
          oct = note div 12;
          angle = (real pc / 12) * pi * 2.0;
          lat = lerp (- 0.7) 0.7 (clamp ((real oct - 2) / 6) 0 1);
          r = cos lat
      in (cos angle * r, sin angle * r))"

definition noteToColor :: "(real \<Rightarrow> real \<Rightarrow> real \<Rightarrow> Color) \<Rightarrow> nat \<Rightarrow> Color" where
  "noteToColor setHSL note =
     (let n = clamp ((real note - 36) / (96 - 36)) 0 1;
          h = lerp 0.05 0.62 (n powr 1.2);
          sat = lerp 0.9 1.0 n;
          val = 1.0
      in hsvToRgb setHSL h sat val)"

text \<open>
  \<^verbatim>\<open>Vector2.length\<close> and \<^verbatim>\<open>Vector2.setLength\<close> of three.js: normalise (dividing by the
  length, or by 1 when the length is 0) and scale.
\<close>

definition vector2_length :: "Vector2 \<Rightarrow> real" where
  "vector2_length v = sqrt (v2x v * v2x v + v2y v * v2y v)"

definition setLength :: "Vector2 \<Rightarrow> real \<Rightarrow> Vector2" where
  "setLength v l =
     (let n = (if vector2_length v = 0 then 1 else vector2_length v)
      in \<lparr>v2x = v2x v * (1 / n) * l, v2y = v2y v * (1 / n) * l\<rparr>)"

definition spawnFlare ::
  "real \<Rightarrow> real \<Rightarrow> real \<Rightarrow> real \<Rightarrow> SolarLayer \<times> env \<Rightarrow> SolarLayer \<times> env" where
  "spawnFlare x y size0 life = (\<lambda>(layer, e).
     case find_inactive (flares layer) of
       None \<Rightarrow> (layer, e)
     | Some i \<Rightarrow>
         let v0 = \<lparr>v2x = x, v2y = y\<rparr>;
             v = (if vector2_length v0 > 0.98 then setLength v0 0.98 else v0);
             (r_vx, e1) = Math_random e;
             (r_vy, e2) = Math_random e1;
             p = (flares layer ! i)
               \<lparr>active := True,
                data := vec4 (v2x v) (v2y v) size0 0.0,
                velocity := vec4 ((r_vx - 0.5) * 0.08) ((r_vy - 0.5) * 0.08) life (1.0 / life)\<rparr>
         in (layer\<lparr>flares := (flares layer)[i := p]\<rparr>, e2))"

definition spawnWave ::
  "Vector2 \<Rightarrow> Color \<Rightarrow> real \<Rightarrow> real \<Rightarrow> real \<Rightarrow> real \<Rightarrow> SolarLayer \<Rightarrow> SolarLayer" where
  "spawnWave orig c strength0 speed0 width decay0 layer =
     (case find_inactive (waves layer) of
        None \<Rightarrow> layer
      | Some i \<Rightarrow>
          let w = (waves layer ! i)
                \<lparr>active := True,
                 data := vec4 (v2x orig) (v2y orig) 0.02 strength0,
                 color := vec4 (col_r c) (col_g c) (col_b c) width,
                 speed := speed0,
                 decay := decay0\<rparr>
          in layer\<lparr>waves := (waves layer)[i := w]\<rparr>)"

definition onSolarNoteOn ::
  "(real \<Rightarrow> real \<Rightarrow> real \<Rightarrow> Color) \<Rightarrow> env \<Rightarrow> SolarLayer \<Rightarrow> nat \<Rightarrow> real \<Rightarrow> SolarLayer \<times> env" where
  "onSolarNoteOn setHSL e layer midiNote velocity0to127 =
     (let vel = clamp velocity0to127 0 127 / 127;
          (x, y) = noteToDiskXY midiNote;
          orig = \<lparr>v2x = x, v2y = y\<rparr>;
          tint = noteToColor setHSL midiNote;
          (layer1, e1) = spawnFlare x y (0.08 + 0.22 * vel) (1.2 + 1.4 * vel) (layer, e);
          layer2 = spawnWave orig tint (0.45 + 0.45 * vel) (0.45 + 0.35 * vel)
                     (0.02 + 0.05 * vel) (0.55 + 0.35 * vel) layer1;
          (t_start, e2) = performance_now e1;
          (t_last, e3) = performance_now e2;
          st2 = (state layer2)
            \<lparr>activeNotes := insert midiNote (activeNotes (state layer2)),
             holds := AList.update midiNote
               \<lparr>startMs = t_start, lastSpawnMs = t_last, origin = orig, hold_color = tint\<rparr>
               (holds (state layer2))\<rparr>;
          (now, e4) = performance_now e3;
          dt = max 1 (now - lastNoteTs st2);
          rateBoost = clamp (300 / dt) 0 2;
          instantEnergy = vel * (1 + rateBoost);
          alpha = 0.25;
          prevMean = emaPitch st2;
          newMean = prevMean + alpha * (real midiNote - prevMean);
          newVar = (1 - alpha) *
            (emaPitchVar st2 + alpha * (real midiNote - prevMean) * (real midiNote - newMean));
          st3 = st2\<lparr>lastNoteTs := now,
                    emaEnergy := lerp (emaEnergy st2) instantEnergy 0.35,
                    emaPitch := newMean,
                    emaPitchVar := newVar\<rparr>
      in (layer2\<lparr>state := st3,
                 u_flareBoost := min 1.0 (u_flareBoost layer2 + vel * 0.7)\<rparr>, e4))"

text \<open>
  \<^verbatim>\<open>onSolarNoteOff\<close> never reads its optional third parameter
  \<^verbatim>\<open>velocity0to127\<close>, and its caller passes none.
\<close>

definition onSolarNoteOff :: "env \<Rightarrow> SolarLayer \<Rightarrow> nat \<Rightarrow> SolarLayer \<times> env" where
  "onSolarNoteOff e layer midiNote =
     (case map_of (holds (state layer)) midiNote of
        Some hold \<Rightarrow>
          let (t, e1) = performance_now e;
              held = (t - startMs hold) / 1000;
              boost = clamp (held / 2.5) 0 1;
              layer1 = spawnWave (origin hold) (hold_color hold) (0.5 + 0.8 * boost)
                         (0.55 + 0.5 * boost) (0.03 + 0.06 * boost) (0.6 + 0.4 * boost) layer;
              layer2 = layer1\<lparr>state := (state layer1)
                         \<lparr>holds := AList.delete midiNote (holds (state layer1))\<rparr>\<rparr>
          in (layer2\<lparr>state := (state layer2)
                \<lparr>activeNotes := activeNotes (state layer2) - {midiNote}\<rparr>\<rparr>, e1)
      | None \<Rightarrow>
          (layer\<lparr>state := (state layer)
             \<lparr>activeNotes := activeNotes (state layer) - {midiNote}\<rparr>\<rparr>, e))"

text \<open>
  The callback of \<^verbatim>\<open>holds.forEach\<close> in \<^verbatim>\<open>updateSolar\<close>, at the \<open>j\<close>-th entry of the
  map; each \<^verbatim>\<open>performance.now()\<close> in it is a reading of its own.
\<close>

definition updateSolar_hold :: "nat \<Rightarrow> SolarLayer \<times> env \<Rightarrow> SolarLayer \<times> env" where
  "updateSolar_hold j = (\<lambda>(layer, e).
     let repeatMs = 140;
         (note, h) = holds (state layer) ! j;
         (t1, e1) = performance_now e;
         elapsed = t1 - lastSpawnMs h;
         (t2, e2) = performance_now e1;
         held = (t2 - startMs h) / 1000;
         factor = clamp (held / 3.0) 0 1
     in if elapsed \<ge> repeatMs * (1.0 - 0.6 * factor)
        then
          let (t3, e3) = performance_now e2;
              layer1 = layer\<lparr>state := (state layer)
                \<lparr>holds := (holds (state layer))[j := (note, h\<lparr>lastSpawnMs := t3\<rparr>)]\<rparr>\<rparr>
          in (spawnWave (origin h) (hold_color h) (0.35 + 0.5 * factor) (0.45 + 0.5 * factor)
                (0.025 + 0.06 * factor) (0.55 + 0.4 * factor) layer1, e3)
        else (layer, e2))"

text \<open>The music-to-visual mapping of \<^verbatim>\<open>updateSolar\<close>, up to the decay of the flash.\<close>

definition updateSolar_params :: "real \<Rightarrow> SolarLayer \<Rightarrow> SolarLayer" where
  "updateSolar_params dt layer =
     (let energy = emaEnergy (state layer);
          highness = clamp ((emaPitch (state layer) - 48) / (84 - 48)) 0 1;
          spreadN = clamp (sqrt (max 0 (emaPitchVar (state layer))) / 8) 0 1;
          poly = real (card (activeNotes (state layer)));
          dir = (if highness < 0.5 then - 1 else 1);
          rot = dir * (0.02 + 0.20 * clamp (energy / 2) 0 1 + 0.10 * spreadN);
          brightness = clamp (0.18 + 0.6 * (energy / 2) + 0.12 * clamp (poly / 6) 0 1) 0 1;
          noiseScale = clamp (0.22 + 0.70 * highness) 0 1;
          turbulence =
            clamp (0.22 + 0.65 * (0.6 * spreadN + 0.4 * clamp (energy / 2) 0 1)) 0 1;
          corona = clamp (0.18 + 0.70 * clamp (energy / 2) 0 1
                          + 0.12 * clamp (poly / 6) 0 1) 0 1;
          hueBias = clamp (0.55 + 0.35 * (1.0 - highness)) 0 1;
          coolBoost = clamp (0.15 + 0.85 * (0.6 * highness + 0.4 * clamp (energy / 2) 0 1)) 0 1
      in layer\<lparr>state := (state layer)\<lparr>rotSpeed := rot\<rparr>,
                u_params := vec4 brightness noiseScale turbulence corona,
                u_color := \<lparr>v2x = hueBias, v2y = coolBoost\<rparr>,
                u_rotation := u_rotation layer + rot * dt,
                u_flareBoost := max 0 (u_flareBoost layer - dt * 0.35)\<rparr>)"

definition updateFlare :: "real \<Rightarrow> ParticleData \<Rightarrow> ParticleData" where
  "updateFlare dt f =
     (let v1 = (velocity f)\<lparr>v4x := v4x (velocity f) * 0.985, v4y := v4y (velocity f) * 0.985\<rparr>;
          x1 = v4x (data f) + v4x v1 * dt;
          y1 = v4y (data f) + v4y v1 * dt;
          age1 = v4w (data f) + v4w v1 * dt;
          d1 = (data f)\<lparr>v4x := x1, v4y := y1, v4w := age1\<rparr>
      in if age1 \<ge> 1.0
         then f\<lparr>velocity := v1, active := False, data := d1\<lparr>v4z := 0.0\<rparr>\<rparr>
         else f\<lparr>velocity := v1, data := d1\<rparr>)"

definition updateSolar_flares_body :: "real \<Rightarrow> nat \<Rightarrow> SolarLayer \<Rightarrow> error + SolarLayer" where
  "updateSolar_flares_body dt i layer =
     (if length (flares layer) \<le> i \<or> length (u_flares layer) \<le> i then Inl TypeError
      else if \<not> active (flares layer ! i)
      then Inr (layer\<lparr>u_flares := (u_flares layer)[i := (u_flares layer ! i)\<lparr>v4z := 0.0\<rparr>]\<rparr>)
      else
        let f = updateFlare dt (flares layer ! i)
        in Inr (layer\<lparr>flares := (flares layer)[i := f],
                       u_flares := (u_flares layer)[i := data f]\<rparr>))"

definition updateWave :: "real \<Rightarrow> Wave \<Rightarrow> Wave" where
  "updateWave dt w =
     (let d1 = (data w)\<lparr>v4z := v4z (data w) + speed w * dt\<rparr>;
          c1 = (color w)\<lparr>v4w := min 0.12 (v4w (color w) + 0.02 * dt)\<rparr>;
          d2 = d1\<lparr>v4w := v4w d1 * exp (- decay w * dt)\<rparr>
      in if v4w d2 < 0.02 \<or> v4z d2 > 2.0
         then w\<lparr>color := c1, active := False, data := d2\<lparr>v4w := 0.0\<rparr>\<rparr>
         else w\<lparr>color := c1, data := d2\<rparr>)"

definition updateSolar_waves_body :: "real \<Rightarrow> nat \<Rightarrow> SolarLayer \<Rightarrow> error + SolarLayer" where
  "updateSolar_waves_body dt i layer =
     (if length (waves layer) \<le> i \<or> length (u_waves layer) \<le> i then Inl TypeError
      else if \<not> active (waves layer ! i)
      then Inr (layer\<lparr>u_waves := (u_waves layer)[i := (u_waves layer ! i)\<lparr>v4w := 0.0\<rparr>]\<rparr>)
      else if length (u_waveColor layer) \<le> i then Inl TypeError
      else
        let w = updateWave dt (waves layer ! i)
        in Inr (layer\<lparr>waves := (waves layer)[i := w],
                       u_waves := (u_waves layer)[i := data w],
                       u_waveColor := (u_waveColor layer)[i := color w]\<rparr>))"

definition updateSolar :: "env \<Rightarrow> SolarLayer \<Rightarrow> real \<Rightarrow> error + (SolarLayer \<times> env)" where
  "updateSolar e layer dtMs =
     (let (t, e1) = performance_now e;
          now = t / 1000;
          layer1 = layer\<lparr>u_time := now\<rparr>;
          dt = min (dtMs / 1000) 0.05;
          (layer2, e2) = fold updateSolar_hold [0..<length (holds (state layer1))] (layer1, e1);
          layer3 = updateSolar_params dt layer2
      in case for_upto MAX_FLARES (updateSolar_flares_body dt) layer3 of
           Inl err \<Rightarrow> Inl err
         | Inr layer4 \<Rightarrow>
             (case for_upto MAX_WAVES (updateSolar_waves_body dt) layer4 of
                Inl err \<Rightarrow> Inl err
              | Inr layer5 \<Rightarrow> Inr (layer5, e2)))"

section \<open>Well-formed layers and runs\<close>

text \<open>
  The lengths the \<^verbatim>\<open>create\<close> functions give the pools and the uniform arrays. The
  update loops index both up to the layer's constant.
\<close>

definition bubbles_wf :: "BubbleLayer \<Rightarrow> bool" where
  "bubbles_wf L = (length (bubbles L) = MAX_BUBBLES \<and> length (u_bubbles L) = MAX_BUBBLES)"

definition plasma_wf :: "PlasmaLayer \<Rightarrow> bool" where
  "plasma_wf L = (length (particles L) = MAX_PARTICLES \<and> length (u_particles L) = MAX_PARTICLES)"

definition trees_wf :: "TreeLayer \<Rightarrow> bool" where
  "trees_wf L = (length (seeds L) = MAX_SEEDS \<and> length (u_seeds L) = MAX_SEEDS
     \<and> length (u_seed_colors L) = MAX_SEEDS)"

definition solar_wf :: "SolarLayer \<Rightarrow> bool" where
  "solar_wf L = (length (flares L) = MAX_FLARES \<and> length (u_flares L) = MAX_FLARES
     \<and> length (waves L) = MAX_WAVES \<and> length (u_waves L) = MAX_WAVES
     \<and> length (u_waveColor L) = MAX_WAVES)"

definition ripples_wf :: "WaveLayer \<Rightarrow> bool" where
  "ripples_wf L = (length (ripples L) \<le> MAX_RIPPLES \<and> length (u_ripples L) = 32)"

text \<open>The number of active slots of a pool.\<close>

definition active_count :: "'a Slot_scheme list \<Rightarrow> nat" where
  "active_count pool = length (filter active pool)"

text \<open>
  The calls a host makes on a layer, with their arguments, and a run of them in order.
  A run stops at the first exception.
\<close>

datatype ('on, 'off) event = NoteOn 'on | NoteOff 'off | Update real

primrec run :: "('ev \<Rightarrow> 's \<Rightarrow> error + 's) \<Rightarrow> 'ev list \<Rightarrow> 's \<Rightarrow> error + 's" where
  "run step [] s = Inr s"
| "run step (ev # evs) s =
     (case step ev s of Inl err \<Rightarrow> Inl err | Inr s' \<Rightarrow> run step evs s')"

definition bubbles_step ::
  "(real \<times> real, real \<times> real) event \<Rightarrow> BubbleLayer \<times> env \<Rightarrow> error + (BubbleLayer \<times> env)" where
  "bubbles_step ev = (\<lambda>(layer, e).
     case ev of
       NoteOn (vel, h) \<Rightarrow> onBubbleNoteOn e layer vel h
     | NoteOff (vel, h) \<Rightarrow> onBubbleNoteOff e layer vel h
     | Update dt \<Rightarrow>
         (case updateBubbles layer dt of
            Inl err \<Rightarrow> Inl err
          | Inr layer' \<Rightarrow> Inr (layer', e)))"

definition plasma_step ::
  "(real \<Rightarrow> real) \<Rightarrow> (real \<times> real, real \<times> real \<times> real) event \<Rightarrow> PlasmaLayer \<times> env
     \<Rightarrow> error + (PlasmaLayer \<times> env)" where
  "plasma_step fl ev = (\<lambda>(layer, e).
     case ev of
       NoteOn (xNorm, vel) \<Rightarrow> Inr (onPlasmaNoteOn e layer xNorm vel)
     | NoteOff (xNorm, vel, heldMs) \<Rightarrow> Inr (onPlasmaNoteOff fl e layer xNorm vel heldMs)
     | Update dt \<Rightarrow> updatePlasma e layer dt)"

definition trees_step ::
  "(nat \<times> real \<times> Color, nat \<times> real \<times> real) event \<Rightarrow> TreeLayer \<times> env
     \<Rightarrow> error + (TreeLayer \<times> env)" where
  "trees_step ev = (\<lambda>(layer, e).
     case ev of
       NoteOn (note, vel, c) \<Rightarrow> onTreeNoteOn e layer note vel c
     | NoteOff (note, vel, heldMs) \<Rightarrow> onTreeNoteOff e layer note vel heldMs
     | Update dt \<Rightarrow> updateTrees e layer dt)"

definition waves_step ::
  "(real \<times> real, real \<times> real \<times> real) event \<Rightarrow> WaveLayer \<times> env
     \<Rightarrow> error + (WaveLayer \<times> env)" where
  "waves_step ev = (\<lambda>(layer, e).
     case ev of
       NoteOn (xNorm, vel) \<Rightarrow> Inr (onWaveNoteOn e layer xNorm vel)
     | NoteOff (xNorm, vel, heldMs) \<Rightarrow> Inr (onWaveNoteOff e layer xNorm vel heldMs)
     | Update dt \<Rightarrow> updateWaves e layer dt)"

definition water_step ::
  "(real \<times> real \<times> real, real \<times> real \<times> real) event \<Rightarrow> WaveLayer \<times> env
     \<Rightarrow> error + (WaveLayer \<times> env)" where
  "water_step ev = (\<lambda>(layer, e).
     case ev of
       NoteOn (xNorm, vel, h) \<Rightarrow> Inr (onWaterNoteOn e layer xNorm vel h)
     | NoteOff (xNorm, vel, heldMs) \<Rightarrow> Inr (onWaterNoteOff e layer xNorm vel heldMs)
     | Update dt \<Rightarrow> updateWater e layer dt)"

definition solar_step ::
  "(real \<Rightarrow> real \<Rightarrow> real \<Rightarrow> Color) \<Rightarrow> (nat \<times> real, nat) event \<Rightarrow> SolarLayer \<times> env
     \<Rightarrow> error + (SolarLayer \<times> env)" where
  "solar_step setHSL ev = (\<lambda>(layer, e).
     case ev of
       NoteOn (midiNote, velocity0to127) \<Rightarrow>
         Inr (onSolarNoteOn setHSL e layer midiNote velocity0to127)
     | NoteOff midiNote \<Rightarrow> Inr (onSolarNoteOff e layer midiNote)
     | Update dtMs \<Rightarrow> updateSolar e layer dtMs)"

text \<open>
  The ranges of the solar layer's running statistics and of the four parameters it writes
  to \<^verbatim>\<open>u_params\<close> (brightness, noise scale, turbulence, corona), and the events whose
  note is a MIDI note number.
\<close>

definition solar_bounded :: "SolarLayer \<Rightarrow> bool" where
  "solar_bounded L =
     (0 \<le> emaEnergy (state L) \<and> emaEnergy (state L) \<le> 3
      \<and> 0 \<le> emaPitch (state L) \<and> emaPitch (state L) \<le> 127
      \<and> 0 \<le> v4x (u_params L) \<and> v4x (u_params L) \<le> 1
      \<and> 0 \<le> v4y (u_params L) \<and> v4y (u_params L) \<le> 1
      \<and> 0 \<le> v4z (u_params L) \<and> v4z (u_params L) \<le> 1
      \<and> 0 \<le> v4w (u_params L) \<and> v4w (u_params L) \<le> 1)"

definition midi_note :: "(nat \<times> real, nat) event \<Rightarrow> bool" where
  "midi_note ev = (case ev of NoteOn (midiNote, velocity0to127) \<Rightarrow> midiNote \<le> 127 | _ \<Rightarrow> True)"

section \<open>Example states\<close>

text \<open>
  A bubble pool whose slot 0 holds a young bubble just under the top edge, rising fast.
\<close>

definition culled_example :: BubbleLayer where
  "culled_example = createBubblesLayer\<lparr>bubbles := (bubbles createBubblesLayer)
      [0 := \<lparr>data = vec4 0.5 1.09 0.1 0, active = True, velocity = vec4 0 1 0.1 5, age = 0\<rparr>]\<rparr>"

text \<open>A host whose random readings are all 1/2 and whose clock stands at 0.\<close>

definition env0 :: env where
  "env0 = \<lparr>random_src = (\<lambda>_. 1 / 2), random_pos = 0, clock_src = (\<lambda>_. 0), clock_pos = 0\<rparr>"

text \<open>
  The plasma layer after \<^verbatim>\<open>onPlasmaNoteOn(layer, 0.5, 0)\<close> on a fresh layer, the random
  readings being 1/2: one hotspot in slot 0, with lifespan \<open>2.5 + 0.5 * 3.0 = 4\<close>.
\<close>

definition plasma_after_note :: "PlasmaLayer \<times> env" where
  "plasma_after_note = onPlasmaNoteOn env0 createPlasmaLayer 0.5 0"

text \<open>
  Two full pools: a bubble pool whose slot 1 holds the oldest bubble (age 5, the others
  age 1), and a solar layer whose 48 flares are all active.
\<close>

definition full_bubbles_example :: BubbleLayer where
  "full_bubbles_example = createBubblesLayer\<lparr>bubbles :=
     (replicate MAX_BUBBLES
        \<lparr>data = vec4 0.5 0.5 0.1 0, active = True, velocity = vec4 0 0.1 0.1 6, age = 1\<rparr>)
     [1 := \<lparr>data = vec4 0.5 0.9 0.1 0, active = True, velocity = vec4 0 0.1 0.1 6, age = 5\<rparr>]\<rparr>"

definition full_flares_example :: SolarLayer where
  "full_flares_example = (fst (createSolarLayer env0))\<lparr>flares :=
     replicate MAX_FLARES
       \<lparr>data = vec4 0 0 0.1 0.5, active = True, velocity = vec4 0 0 2 0.5\<rparr>\<rparr>"

section \<open>The loop rule\<close>

lemma for_upto_rule:
  assumes "P 0 s"
    and "\<And>i t. i < n \<Longrightarrow> P i t \<Longrightarrow> \<exists>t'. body i t = Inr t' \<and> P (Suc i) t'"
  shows "\<exists>t. for_upto n body s = Inr t \<and> P n t"
proof -
  have "k \<le> n \<Longrightarrow> \<exists>t. for_upto k body s = Inr t \<and> P k t" for k
  proof (induction k)
    case 0
    then show ?case using assms(1) by simp
  next
    case (Suc k)
    then obtain t where t: "for_upto k body s = Inr t" "P k t" by auto
    from Suc.prems have "k < n" by simp
    from assms(2)[OF this t(2)] obtain t' where "body k t = Inr t'" "P (Suc k) t'" by blast
    with t show ?case by simp
  qed
  then show ?thesis by blast
qed

section \<open>Free-slot search\<close>

lemma find_inactive_Some:
  "find_inactive xs = Some i \<Longrightarrow> i < length xs \<and> \<not> active (xs ! i)"
proof (induction xs arbitrary: i)
  case Nil
  then show ?case by simp
next
  case (Cons s ss)
  then show ?case by (auto split: if_splits)
qed

lemma find_inactive_None:
  "(find_inactive xs = None) = (\<forall>s\<in>set xs. active s)"
  by (induction xs) auto

lemma find_inactive_or_first_Inr:
  assumes "xs \<noteq> []"
  shows "\<exists>i<length xs. find_inactive_or_first xs = Inr i"
  using assms find_inactive_Some[of xs]
  by (auto simp: find_inactive_or_first_def split: option.splits)

section \<open>The bubble update, slot by slot\<close>

lemma updateBubbles_slots:
  assumes "bubbles_wf L"
  shows "\<exists>L'. updateBubbles L dt = Inr L' \<and> bubbles_wf L'
           \<and> L'\<lparr>bubbles := bubbles L, u_bubbles := u_bubbles L\<rparr> = L
           \<and> (\<forall>i<MAX_BUBBLES.
                 if active (bubbles L ! i)
                 then bubbles L' ! i
                        = fst (updateBubble (u_time L) (min (dt / 1000) 0.05) (bubbles L ! i))
                      \<and> u_bubbles L' ! i
                        = snd (updateBubble (u_time L) (min (dt / 1000) 0.05) (bubbles L ! i))
                 else bubbles L' ! i = bubbles L ! i \<and> u_bubbles L' ! i = vec4 0 0 0 0)"
proof -
  define ds where "ds = min (dt / 1000) (0.05::real)"
  define P where "P k t \<longleftrightarrow>
      t\<lparr>bubbles := bubbles L, u_bubbles := u_bubbles L\<rparr> = L
      \<and> length (bubbles t) = MAX_BUBBLES \<and> length (u_bubbles t) = MAX_BUBBLES
      \<and> (\<forall>i<k. if active (bubbles L ! i)
                 then bubbles t ! i = fst (updateBubble (u_time L) ds (bubbles L ! i))
                      \<and> u_bubbles t ! i = snd (updateBubble (u_time L) ds (bubbles L ! i))
                 else bubbles t ! i = bubbles L ! i \<and> u_bubbles t ! i = vec4 0 0 0 0)
      \<and> (\<forall>i\<ge>k. bubbles t ! i = bubbles L ! i)" for k t
  have P0: "P 0 L" using assms by (simp add: P_def bubbles_wf_def)
  have step: "\<exists>t'. updateBubbles_body (u_time L) ds i t = Inr t' \<and> P (Suc i) t'"
    if "i < MAX_BUBBLES" "P i t" for i t
    using that
    by (cases "active (bubbles L ! i)")
      (auto simp: updateBubbles_body_def P_def nth_list_update less_Suc_eq Let_def
        case_prod_beta)
  from for_upto_rule[of P L MAX_BUBBLES "updateBubbles_body (u_time L) ds", OF P0 step]
  show ?thesis
    unfolding updateBubbles_def P_def ds_def Let_def bubbles_wf_def by blast
qed

lemma updateBubble_active_y:
  "active (fst (updateBubble now ds b)) \<Longrightarrow> active b \<and> v4y (data (fst (updateBubble now ds b))) \<le> 1.1"
  by (auto simp: updateBubble_def Let_def split: if_splits)

lemma updateBubble_culled:
  "v4y (data b) + v4y (velocity b) * ds > 1.1 \<Longrightarrow>
     \<not> active (fst (updateBubble now ds b)) \<and> snd (updateBubble now ds b) = vec4 0 0 0 0"
  by (auto simp: updateBubble_def Let_def)

text \<open>
  Claim C10. After \<^verbatim>\<open>updateBubbles\<close>, every bubble that is still active has
  \<open>data.y \<le> 1.1\<close>. A bubble whose new height exceeds 1.1 is deactivated and its
  uniform record set to zero in the same call, whatever its age ratio: the loop
  tests \<^verbatim>\<open>ageRatio > 1.0 || bubble.data.y > 1.1\<close>.
\<close>

theorem active_bubbles_below_cull_line:
  assumes "bubbles_wf L"
    and "\<forall>b\<in>set (bubbles L). active b \<longrightarrow> v4w (velocity b) \<noteq> 0"
  shows "\<exists>L'. updateBubbles L dt = Inr L'
           \<and> (\<forall>i<MAX_BUBBLES. active (bubbles L' ! i) \<longrightarrow> v4y (data (bubbles L' ! i)) \<le> 1.1)
           \<and> (\<forall>i<MAX_BUBBLES.
                 active (bubbles L ! i)
                 \<and> v4y (data (bubbles L ! i))
                     + v4y (velocity (bubbles L ! i)) * min (dt / 1000) 0.05 > 1.1
                 \<longrightarrow> \<not> active (bubbles L' ! i) \<and> u_bubbles L' ! i = vec4 0 0 0 0)"
proof -
  define ds where "ds = min (dt / 1000) (0.05::real)"
  from updateBubbles_slots[OF assms(1), of dt] obtain L' where
    run: "updateBubbles L dt = Inr L'" and
    slots: "\<forall>i<MAX_BUBBLES.
                 if active (bubbles L ! i)
                 then bubbles L' ! i = fst (updateBubble (u_time L) ds (bubbles L ! i))
                      \<and> u_bubbles L' ! i = snd (updateBubble (u_time L) ds (bubbles L ! i))
                 else bubbles L' ! i = bubbles L ! i \<and> u_bubbles L' ! i = vec4 0 0 0 0"
    unfolding ds_def by blast
  have below: "v4y (data (bubbles L' ! i)) \<le> 1.1"
    if "i < MAX_BUBBLES" "active (bubbles L' ! i)" for i
  proof (cases "active (bubbles L ! i)")
    case True
    with slots that(1) have "bubbles L' ! i = fst (updateBubble (u_time L) ds (bubbles L ! i))"
      by simp
    with that(2) updateBubble_active_y[of "u_time L" ds "bubbles L ! i"] show ?thesis by simp
  next
    case False
    with slots that(1) have "bubbles L' ! i = bubbles L ! i" by simp
    with False that(2) show ?thesis by simp
  qed
  have culled: "\<not> active (bubbles L' ! i) \<and> u_bubbles L' ! i = vec4 0 0 0 0"
    if "i < MAX_BUBBLES" "active (bubbles L ! i)"
      "v4y (data (bubbles L ! i)) + v4y (velocity (bubbles L ! i)) * ds > 1.1" for i
  proof -
    from slots that(1,2) have
      "bubbles L' ! i = fst (updateBubble (u_time L) ds (bubbles L ! i))"
      "u_bubbles L' ! i = snd (updateBubble (u_time L) ds (bubbles L ! i))"
      by simp_all
    with updateBubble_culled[OF that(3), of "u_time L"] show ?thesis by simp
  qed
  from run below culled show ?thesis unfolding ds_def by blast
qed

text \<open>
  The bubble of \<open>culled_example\<close> has age ratio \<open>0.05 / 5\<close> after a 50 ms frame and
  is culled all the same.
\<close>

theorem active_bubbles_below_cull_line_witness:
  "\<exists>L'. updateBubbles culled_example 50 = Inr L'
      \<and> (0 + min (50 / 1000) 0.05) / 5 \<le> (1::real)
      \<and> \<not> active (bubbles L' ! 0) \<and> u_bubbles L' ! 0 = vec4 0 0 0 0"
proof -
  have len: "bubbles_wf culled_example"
    by (simp add: bubbles_wf_def culled_example_def createBubblesLayer_def)
  have life: "\<forall>b\<in>set (bubbles culled_example). active b \<longrightarrow> v4w (velocity b) \<noteq> 0"
  proof
    fix b assume "b \<in> set (bubbles culled_example)"
    then have "b \<in> insert \<lparr>data = vec4 0.5 1.09 0.1 0, active = True, velocity = vec4 0 1 0.1 5, age = 0\<rparr>
        (set (bubbles createBubblesLayer))"
      using set_update_subset_insert by (fastforce simp: culled_example_def)
    then show "active b \<longrightarrow> v4w (velocity b) \<noteq> 0"
      by (auto simp: createBubblesLayer_def)
  qed
  have pos: "0 < MAX_BUBBLES" by (simp add: MAX_BUBBLES_def)
  have b0: "bubbles culled_example ! 0 = \<lparr>data = vec4 0.5 1.09 0.1 0, active = True, velocity = vec4 0 1 0.1 5, age = 0\<rparr>"
    using pos by (simp add: culled_example_def createBubblesLayer_def)
  from active_bubbles_below_cull_line[OF len life, of 50] pos b0
  show ?thesis by auto
qed

section \<open>The clamp of the frame delta\<close>

text \<open>
  Claim C4. Every \<^verbatim>\<open>update\<close> function applies \<^verbatim>\<open>Math.min(dt / 1000, 0.05)\<close> (the ripple
  layers do not read the delta at all), so with the same readings of the host a call
  with a delta of 50 ms or more, 10000 ms among them, returns exactly what the call
  with 50 ms returns.
\<close>

theorem oversized_delta_is_clamped:
  assumes "50 \<le> dt"
  shows "updateBubbles B dt = updateBubbles B 50
       \<and> updatePlasma e P dt = updatePlasma e P 50
       \<and> updateTrees e T dt = updateTrees e T 50
       \<and> updateSolar e S dt = updateSolar e S 50
       \<and> updateWaves e W dt = updateWaves e W 50
       \<and> updateWater e W dt = updateWater e W 50"
proof -
  have "min (dt / 1000) (0.05::real) = min (50 / 1000) 0.05"
    using assms by simp
  then show ?thesis
    unfolding updateBubbles_def updatePlasma_def updateTrees_def updateSolar_def
      updateWaves_def updateWater_def
    by simp
qed

theorem oversized_delta_is_clamped_witness:
  "updateBubbles createBubblesLayer 10000 = updateBubbles createBubblesLayer 50
   \<and> updatePlasma env0 createPlasmaLayer 10000 = updatePlasma env0 createPlasmaLayer 50
   \<and> updateTrees env0 createTreesLayer 10000 = updateTrees env0 createTreesLayer 50
   \<and> updateSolar env0 (fst (createSolarLayer env0)) 10000
       = updateSolar env0 (fst (createSolarLayer env0)) 50
   \<and> updateWaves env0 createWavesLayer 10000 = updateWaves env0 createWavesLayer 50
   \<and> updateWater env0 createWaterLayer 10000 = updateWater env0 createWaterLayer 50"
proof -
  have "(50::real) \<le> 10000" by simp
  from oversized_delta_is_clamped[OF this] show ?thesis by blast
qed

section \<open>Note-off without a hold\<close>

lemma state_spawnWave [simp]: "state (spawnWave orig c s sp wd dc L) = state L"
  by (simp add: spawnWave_def Let_def split: option.splits)

lemma note_off_removes_hold:
  "map_of (holds (state (fst (onSolarNoteOff e L midiNote)))) midiNote = None"
  by (simp add: onSolarNoteOff_def Let_def delete_conv split: option.splits prod.splits)

text \<open>
  Claim C9. When \<^verbatim>\<open>holds\<close> has no entry for the note, \<^verbatim>\<open>onSolarNoteOff\<close> reads no
  clock, spawns no wave and changes nothing but \<^verbatim>\<open>activeNotes\<close>, from which the note is
  gone afterwards. After any note-off the note has no entry, so a second note-off for
  it is such a call.
\<close>

theorem spurious_note_off_is_safe:
  "(map_of (holds (state L)) midiNote = None \<longrightarrow>
      onSolarNoteOff e L midiNote =
        (L\<lparr>state := (state L)\<lparr>activeNotes := activeNotes (state L) - {midiNote}\<rparr>\<rparr>, e)
      \<and> waves (fst (onSolarNoteOff e L midiNote)) = waves L
      \<and> midiNote \<notin> activeNotes (state (fst (onSolarNoteOff e L midiNote))))
   \<and> map_of (holds (state (fst (onSolarNoteOff e L midiNote)))) midiNote = None"
  using note_off_removes_hold[of e L midiNote] by (simp add: onSolarNoteOff_def)

theorem spurious_note_off_is_safe_witness:
  "onSolarNoteOff env0 (fst (createSolarLayer env0)) 60 =
     ((fst (createSolarLayer env0))\<lparr>state := (state (fst (createSolarLayer env0)))
        \<lparr>activeNotes := activeNotes (state (fst (createSolarLayer env0))) - {60}\<rparr>\<rparr>, env0)
   \<and> waves (fst (onSolarNoteOff env0 (fst (createSolarLayer env0)) 60))
       = waves (fst (createSolarLayer env0))"
proof -
  have "map_of (holds (state (fst (createSolarLayer env0)))) 60 = None"
    by (simp add: createSolarLayer_def performance_now_def Let_def)
  with spurious_note_off_is_safe[of "fst (createSolarLayer env0)" 60 env0] show ?thesis by blast
qed

section \<open>The other update loops, slot by slot\<close>


lemma updatePlasma_loop:
  assumes len: "length (particles L) = MAX_PARTICLES" "length (u_particles L) = MAX_PARTICLES"
  shows "\<exists>L' e'. for_upto MAX_PARTICLES (updatePlasma_body ds) (L, e) = Inr (L', e')
           \<and> L'\<lparr>particles := particles L, u_particles := u_particles L\<rparr> = L
           \<and> length (particles L') = MAX_PARTICLES \<and> length (u_particles L') = MAX_PARTICLES
           \<and> (\<forall>i<MAX_PARTICLES.
                 if active (particles L ! i)
                 then (\<exists>r. particles L' ! i = updateParticle ds r (particles L ! i))
                      \<and> u_particles L' ! i = data (particles L' ! i)
                 else particles L' ! i = particles L ! i
                      \<and> u_particles L' ! i = (u_particles L ! i)\<lparr>v4z := 0\<rparr>)"
proof -
  define P where "P k s \<longleftrightarrow>
      (fst s)\<lparr>particles := particles L, u_particles := u_particles L\<rparr> = L
      \<and> length (particles (fst s)) = MAX_PARTICLES \<and> length (u_particles (fst s)) = MAX_PARTICLES
      \<and> (\<forall>i<k. if active (particles L ! i)
                 then (\<exists>r. particles (fst s) ! i = updateParticle ds r (particles L ! i))
                      \<and> u_particles (fst s) ! i = data (particles (fst s) ! i)
                 else particles (fst s) ! i = particles L ! i
                      \<and> u_particles (fst s) ! i = (u_particles L ! i)\<lparr>v4z := 0\<rparr>)
      \<and> (\<forall>i\<ge>k. particles (fst s) ! i = particles L ! i
                 \<and> u_particles (fst s) ! i = u_particles L ! i)" for k and s :: "PlasmaLayer \<times> env"
  have P0: "P 0 (L, e)" using len by (simp add: P_def)
  have step: "\<exists>s'. updatePlasma_body ds i s = Inr s' \<and> P (Suc i) s'"
    if "i < MAX_PARTICLES" "P i s" for i s
  proof (cases s)
    case (Pair t e0)
    show ?thesis
    proof (cases "active (particles L ! i)")
      case False
      with that Pair show ?thesis
        by (auto simp: updatePlasma_body_def P_def nth_list_update less_Suc_eq)
    next
      case True
      with that Pair show ?thesis
        by (auto simp: updatePlasma_body_def P_def nth_list_update less_Suc_eq Math_random_def Let_def)
    qed
  qed
  from for_upto_rule[of P "(L, e)" MAX_PARTICLES "updatePlasma_body ds", OF P0 step]
  obtain s where s: "for_upto MAX_PARTICLES (updatePlasma_body ds) (L, e) = Inr s" "P MAX_PARTICLES s"
    by blast
  obtain L' e' where "s = (L', e')" by (cases s)
  with s show ?thesis
    unfolding P_def by auto
qed

lemma updateTrees_loop:
  assumes len: "length (seeds L) = MAX_SEEDS" "length (u_seeds L) = MAX_SEEDS"
    "length (u_seed_colors L) = MAX_SEEDS"
  shows "\<exists>L'. for_upto MAX_SEEDS (updateTrees_body now ds) L = Inr L'
           \<and> L'\<lparr>seeds := seeds L, u_seeds := u_seeds L, u_seed_colors := u_seed_colors L\<rparr> = L
           \<and> length (seeds L') = MAX_SEEDS \<and> length (u_seeds L') = MAX_SEEDS
           \<and> length (u_seed_colors L') = MAX_SEEDS
           \<and> (\<forall>i<MAX_SEEDS.
                 if active (seeds L ! i)
                 then seeds L' ! i = updateSeed now ds (seeds L ! i)
                      \<and> u_seeds L' ! i = data (seeds L' ! i)
                      \<and> u_seed_colors L' ! i = colorData (seeds L' ! i)
                 else seeds L' ! i = seeds L ! i
                      \<and> u_seeds L' ! i = vec4 0 0 0 0 \<and> u_seed_colors L' ! i = vec4 0 0 0 0)"
proof -
  define P where "P k t \<longleftrightarrow>
      t\<lparr>seeds := seeds L, u_seeds := u_seeds L, u_seed_colors := u_seed_colors L\<rparr> = L
      \<and> length (seeds t) = MAX_SEEDS \<and> length (u_seeds t) = MAX_SEEDS
      \<and> length (u_seed_colors t) = MAX_SEEDS
      \<and> (\<forall>i<k. if active (seeds L ! i)
                 then seeds t ! i = updateSeed now ds (seeds L ! i)
                      \<and> u_seeds t ! i = data (seeds t ! i)
                      \<and> u_seed_colors t ! i = colorData (seeds t ! i)
                 else seeds t ! i = seeds L ! i
                      \<and> u_seeds t ! i = vec4 0 0 0 0 \<and> u_seed_colors t ! i = vec4 0 0 0 0)
      \<and> (\<forall>i\<ge>k. seeds t ! i = seeds L ! i)" for k t
  have P0: "P 0 L" using len by (simp add: P_def)
  have step: "\<exists>t'. updateTrees_body now ds i t = Inr t' \<and> P (Suc i) t'"
    if "i < MAX_SEEDS" "P i t" for i t
    using that
    by (cases "active (seeds L ! i)")
      (auto simp: updateTrees_body_def P_def nth_list_update less_Suc_eq Let_def)
  from for_upto_rule[of P L MAX_SEEDS "updateTrees_body now ds", OF P0 step]
  show ?thesis unfolding P_def by blast
qed

lemma updateSolar_flares_loop:
  assumes len: "length (flares L) = MAX_FLARES" "length (u_flares L) = MAX_FLARES"
  shows "\<exists>L'. for_upto MAX_FLARES (updateSolar_flares_body dt) L = Inr L'
           \<and> L'\<lparr>flares := flares L, u_flares := u_flares L\<rparr> = L
           \<and> length (flares L') = MAX_FLARES \<and> length (u_flares L') = MAX_FLARES
           \<and> (\<forall>i<MAX_FLARES.
                 if active (flares L ! i)
                 then flares L' ! i = updateFlare dt (flares L ! i)
                      \<and> u_flares L' ! i = data (flares L' ! i)
                 else flares L' ! i = flares L ! i
                      \<and> u_flares L' ! i = (u_flares L ! i)\<lparr>v4z := 0\<rparr>)"
proof -
  define P where "P k t \<longleftrightarrow>
      t\<lparr>flares := flares L, u_flares := u_flares L\<rparr> = L
      \<and> length (flares t) = MAX_FLARES \<and> length (u_flares t) = MAX_FLARES
      \<and> (\<forall>i<k. if active (flares L ! i)
                 then flares t ! i = updateFlare dt (flares L ! i)
                      \<and> u_flares t ! i = data (flares t ! i)
                 else flares t ! i = flares L ! i
                      \<and> u_flares t ! i = (u_flares L ! i)\<lparr>v4z := 0\<rparr>)
      \<and> (\<forall>i\<ge>k. flares t ! i = flares L ! i \<and> u_flares t ! i = u_flares L ! i)" for k t
  have P0: "P 0 L" using len by (simp add: P_def)
  have step: "\<exists>t'. updateSolar_flares_body dt i t = Inr t' \<and> P (Suc i) t'"
    if "i < MAX_FLARES" "P i t" for i t
    using that
    by (cases "active (flares L ! i)")
      (auto simp: updateSolar_flares_body_def P_def nth_list_update less_Suc_eq Let_def)
  from for_upto_rule[of P L MAX_FLARES "updateSolar_flares_body dt", OF P0 step]
  show ?thesis unfolding P_def by blast
qed

lemma updateSolar_waves_loop:
  assumes len: "length (waves L) = MAX_WAVES" "length (u_waves L) = MAX_WAVES"
    "length (u_waveColor L) = MAX_WAVES"
  shows "\<exists>L'. for_upto MAX_WAVES (updateSolar_waves_body dt) L = Inr L'
           \<and> L'\<lparr>waves := waves L, u_waves := u_waves L, u_waveColor := u_waveColor L\<rparr> = L
           \<and> length (waves L') = MAX_WAVES \<and> length (u_waves L') = MAX_WAVES
           \<and> length (u_waveColor L') = MAX_WAVES
           \<and> (\<forall>i<MAX_WAVES.
                 if active (waves L ! i)
                 then waves L' ! i = updateWave dt (waves L ! i)
                      \<and> u_waves L' ! i = data (waves L' ! i)
                      \<and> u_waveColor L' ! i = color (waves L' ! i)
                 else waves L' ! i = waves L ! i
                      \<and> u_waves L' ! i = (u_waves L ! i)\<lparr>v4w := 0\<rparr>
                      \<and> u_waveColor L' ! i = u_waveColor L ! i)"
proof -
  define P where "P k t \<longleftrightarrow>
      t\<lparr>waves := waves L, u_waves := u_waves L, u_waveColor := u_waveColor L\<rparr> = L
      \<and> length (waves t) = MAX_WAVES \<and> length (u_waves t) = MAX_WAVES
      \<and> length (u_waveColor t) = MAX_WAVES
      \<and> (\<forall>i<k. if active (waves L ! i)
                 then waves t ! i = updateWave dt (waves L ! i)
                      \<and> u_waves t ! i = data (waves t ! i)
                      \<and> u_waveColor t ! i = color (waves t ! i)
                 else waves t ! i = waves L ! i
                      \<and> u_waves t ! i = (u_waves L ! i)\<lparr>v4w := 0\<rparr>
                      \<and> u_waveColor t ! i = u_waveColor L ! i)
      \<and> (\<forall>i\<ge>k. waves t ! i = waves L ! i \<and> u_waves t ! i = u_waves L ! i
                 \<and> u_waveColor t ! i = u_waveColor L ! i)" for k t
  have P0: "P 0 L" using len by (simp add: P_def)
  have step: "\<exists>t'. updateSolar_waves_body dt i t = Inr t' \<and> P (Suc i) t'"
    if "i < MAX_WAVES" "P i t" for i t
    using that
    by (cases "active (waves L ! i)")
      (auto simp: updateSolar_waves_body_def P_def nth_list_update less_Suc_eq Let_def)
  from for_upto_rule[of P L MAX_WAVES "updateSolar_waves_body dt", OF P0 step]
  show ?thesis unfolding P_def by blast
qed

section \<open>Whole updates\<close>

lemma updatePlasma_slots:
  assumes "plasma_wf L"
  shows "\<exists>L' e'. updatePlasma e L dt = Inr (L', e') \<and> plasma_wf L'
           \<and> L'\<lparr>particles := particles L, u_particles := u_particles L, u_time := u_time L\<rparr> = L
           \<and> (\<forall>i<MAX_PARTICLES.
                 if active (particles L ! i)
                 then (\<exists>r. particles L' ! i
                            = updateParticle (min (dt / 1000) 0.05) r (particles L ! i))
                      \<and> u_particles L' ! i = data (particles L' ! i)
                 else particles L' ! i = particles L ! i
                      \<and> u_particles L' ! i = (u_particles L ! i)\<lparr>v4z := 0\<rparr>)"
proof -
  define L1 where "L1 = L\<lparr>u_time := fst (performance_now e) / 1000\<rparr>"
  have len: "length (particles L1) = MAX_PARTICLES" "length (u_particles L1) = MAX_PARTICLES"
    using assms by (simp_all add: L1_def plasma_wf_def)
  from updatePlasma_loop[OF len, of "min (dt / 1000) 0.05" "snd (performance_now e)"]
  obtain L' e' where
    loop: "for_upto MAX_PARTICLES (updatePlasma_body (min (dt / 1000) 0.05))
             (L1, snd (performance_now e)) = Inr (L', e')"
    and frame: "L'\<lparr>particles := particles L1, u_particles := u_particles L1\<rparr> = L1"
    and len': "length (particles L') = MAX_PARTICLES" "length (u_particles L') = MAX_PARTICLES"
    and slots: "\<forall>i<MAX_PARTICLES.
                 if active (particles L1 ! i)
                 then (\<exists>r. particles L' ! i
                            = updateParticle (min (dt / 1000) 0.05) r (particles L1 ! i))
                      \<and> u_particles L' ! i = data (particles L' ! i)
                 else particles L' ! i = particles L1 ! i
                      \<and> u_particles L' ! i = (u_particles L1 ! i)\<lparr>v4z := 0\<rparr>"
    by blast
  have run: "updatePlasma e L dt = Inr (L', e')"
    using loop by (simp add: updatePlasma_def L1_def Let_def case_prod_beta)
  have "L'\<lparr>particles := particles L, u_particles := u_particles L, u_time := u_time L\<rparr>
        = L1\<lparr>u_time := u_time L\<rparr>"
    using arg_cong[OF frame, of "\<lambda>l. l\<lparr>u_time := u_time L\<rparr>"] by (simp add: L1_def)
  then have frame': "L'\<lparr>particles := particles L, u_particles := u_particles L, u_time := u_time L\<rparr> = L"
    by (simp add: L1_def)
  from run frame' len' slots show ?thesis
    by (auto simp: plasma_wf_def L1_def)
qed



lemma updateTrees_slots:
  assumes "trees_wf L"
  shows "\<exists>L' e'. updateTrees e L dt = Inr (L', e') \<and> trees_wf L'
           \<and> (\<forall>i<MAX_SEEDS.
                 if active (seeds L ! i)
                 then seeds L' ! i = updateSeed (fst (performance_now e) / 1000)
                                       (min (dt / 1000) 0.05) (seeds L ! i)
                      \<and> u_seeds L' ! i = data (seeds L' ! i)
                      \<and> u_seed_colors L' ! i = colorData (seeds L' ! i)
                 else seeds L' ! i = seeds L ! i
                      \<and> u_seeds L' ! i = vec4 0 0 0 0 \<and> u_seed_colors L' ! i = vec4 0 0 0 0)"
proof -
  define L1 where "L1 = L\<lparr>u_time := fst (performance_now e) / 1000\<rparr>"
  have len: "length (seeds L1) = MAX_SEEDS" "length (u_seeds L1) = MAX_SEEDS"
    "length (u_seed_colors L1) = MAX_SEEDS"
    using assms by (simp_all add: L1_def trees_wf_def)
  from updateTrees_loop[OF len, of "fst (performance_now e) / 1000" "min (dt / 1000) 0.05"]
  obtain L' where
    loop: "for_upto MAX_SEEDS (updateTrees_body (fst (performance_now e) / 1000)
             (min (dt / 1000) 0.05)) L1 = Inr L'"
    and len': "length (seeds L') = MAX_SEEDS" "length (u_seeds L') = MAX_SEEDS"
      "length (u_seed_colors L') = MAX_SEEDS"
    and slots: "\<forall>i<MAX_SEEDS.
                 if active (seeds L1 ! i)
                 then seeds L' ! i = updateSeed (fst (performance_now e) / 1000)
                                       (min (dt / 1000) 0.05) (seeds L1 ! i)
                      \<and> u_seeds L' ! i = data (seeds L' ! i)
                      \<and> u_seed_colors L' ! i = colorData (seeds L' ! i)
                 else seeds L' ! i = seeds L1 ! i
                      \<and> u_seeds L' ! i = vec4 0 0 0 0 \<and> u_seed_colors L' ! i = vec4 0 0 0 0"
    by blast
  have run: "updateTrees e L dt = Inr (L', snd (performance_now e))"
    using loop by (simp add: updateTrees_def L1_def Let_def case_prod_beta)
  from run len' slots show ?thesis
    by (auto simp: trees_wf_def L1_def)
qed



lemma spawnWave_shape:
  "\<exists>ws. spawnWave orig c s sp wd dc L = L\<lparr>waves := ws\<rparr> \<and> length ws = length (waves L)"
proof (cases "find_inactive (waves L)")
  case None
  then have "spawnWave orig c s sp wd dc L = L\<lparr>waves := waves L\<rparr>"
    by (simp add: spawnWave_def)
  then show ?thesis by blast
next
  case (Some i)
  define w where "w = (waves L ! i)\<lparr>active := True,
      data := vec4 (v2x orig) (v2y orig) 0.02 s,
      color := vec4 (col_r c) (col_g c) (col_b c) wd, speed := sp, decay := dc\<rparr>"
  from Some have "spawnWave orig c s sp wd dc L = L\<lparr>waves := (waves L)[i := w]\<rparr>"
    by (simp add: spawnWave_def Let_def w_def)
  moreover have "length ((waves L)[i := w]) = length (waves L)" by simp
  ultimately show ?thesis by blast
qed

lemma spawnFlare_shape:
  "\<exists>fs e'. spawnFlare x y s l (L, e) = (L\<lparr>flares := fs\<rparr>, e') \<and> length fs = length (flares L)"
proof (cases "find_inactive (flares L)")
  case None
  then have "spawnFlare x y s l (L, e) = (L\<lparr>flares := flares L\<rparr>, e)"
    by (simp add: spawnFlare_def)
  then show ?thesis by blast
next
  case (Some i)
  define v where "v = (if vector2_length \<lparr>v2x = x, v2y = y\<rparr> > 0.98
      then setLength \<lparr>v2x = x, v2y = y\<rparr> 0.98 else \<lparr>v2x = x, v2y = y\<rparr>)"
  define e1 where "e1 = snd (Math_random e)"
  define p where "p = (flares L ! i)\<lparr>active := True,
      data := vec4 (v2x v) (v2y v) s 0.0,
      velocity := vec4 ((fst (Math_random e) - 0.5) * 0.08)
        ((fst (Math_random e1) - 0.5) * 0.08) l (1.0 / l)\<rparr>"
  from Some have "spawnFlare x y s l (L, e) = (L\<lparr>flares := (flares L)[i := p]\<rparr>, snd (Math_random e1))"
    by (simp add: spawnFlare_def Let_def case_prod_beta p_def v_def e1_def)
  moreover have "length ((flares L)[i := p]) = length (flares L)" by simp
  ultimately show ?thesis by blast
qed

lemma hold_shape_aux:
  "\<exists>ws hs e'. (if c then (spawnWave orig col a1 a2 a3 a4 (L\<lparr>state := (state L)\<lparr>holds := hs1\<rparr>\<rparr>), e3)
                 else (L, e2))
        = (L\<lparr>state := (state L)\<lparr>holds := hs\<rparr>, waves := ws\<rparr>, e')
      \<and> length ws = length (waves L)"
proof (cases c)
  case False
  then show ?thesis
    by (intro exI[of _ "waves L"] exI[of _ "holds (state L)"] exI[of _ e2]) simp
next
  case True
  from spawnWave_shape[of orig col a1 a2 a3 a4 "L\<lparr>state := (state L)\<lparr>holds := hs1\<rparr>\<rparr>"]
  obtain ws where "spawnWave orig col a1 a2 a3 a4 (L\<lparr>state := (state L)\<lparr>holds := hs1\<rparr>\<rparr>)
      = L\<lparr>state := (state L)\<lparr>holds := hs1\<rparr>, waves := ws\<rparr>" "length ws = length (waves L)"
    by auto
  with True show ?thesis
    by (intro exI[of _ ws] exI[of _ hs1] exI[of _ e3]) simp
qed

lemma updateSolar_hold_shape:
  "\<exists>ws hs e'. updateSolar_hold j (L, e) = (L\<lparr>state := (state L)\<lparr>holds := hs\<rparr>, waves := ws\<rparr>, e')
      \<and> length ws = length (waves L)"
  by (simp only: updateSolar_hold_def Let_def case_prod_beta fst_conv snd_conv)
    (rule hold_shape_aux)

lemma updateSolar_holds_shape:
  "\<exists>ws hs e'. fold updateSolar_hold js (L, e)
        = (L\<lparr>state := (state L)\<lparr>holds := hs\<rparr>, waves := ws\<rparr>, e')
      \<and> length ws = length (waves L)"
proof (induction js arbitrary: L e)
  case Nil
  show ?case
    by (intro exI[of _ "waves L"] exI[of _ "holds (state L)"] exI[of _ e]) simp
next
  case (Cons j js)
  from updateSolar_hold_shape[of j L e] obtain ws hs e' where
    h: "updateSolar_hold j (L, e) = (L\<lparr>state := (state L)\<lparr>holds := hs\<rparr>, waves := ws\<rparr>, e')"
    "length ws = length (waves L)" by blast
  from Cons.IH[of "L\<lparr>state := (state L)\<lparr>holds := hs\<rparr>, waves := ws\<rparr>" e']
  obtain ws' hs' e'' where
    "fold updateSolar_hold js (L\<lparr>state := (state L)\<lparr>holds := hs\<rparr>, waves := ws\<rparr>, e')
       = (L\<lparr>state := (state L)\<lparr>holds := hs'\<rparr>, waves := ws'\<rparr>, e'')"
    "length ws' = length ws"
    by auto
  with h show ?case
    by (intro exI[of _ ws'] exI[of _ hs'] exI[of _ e'']) simp
qed

section \<open>Deactivation zeroes the marshalled record\<close>

lemma updateFlare_inactive:
  "\<not> active (updateFlare dt f) \<Longrightarrow> active f \<Longrightarrow> v4z (data (updateFlare dt f)) = 0"
  by (auto simp: updateFlare_def Let_def split: if_splits)

lemma updateWave_inactive:
  "\<not> active (updateWave dt w) \<Longrightarrow> active w \<Longrightarrow> v4w (data (updateWave dt w)) = 0"
  by (auto simp: updateWave_def Let_def split: if_splits)

lemma updateParticle_inactive:
  "\<not> active (updateParticle ds r p) \<Longrightarrow> active p \<Longrightarrow> v4z (data (updateParticle ds r p)) = 0"
  by (auto simp: updateParticle_def Let_def split: if_splits)

lemma updateBubble_inactive:
  "\<not> active (fst (updateBubble now ds b)) \<Longrightarrow> active b \<Longrightarrow> snd (updateBubble now ds b) = vec4 0 0 0 0"
  by (auto simp: updateBubble_def Let_def split: if_splits)

lemma updateSeed_inactive:
  "\<not> active (updateSeed now ds s) \<Longrightarrow> active s \<Longrightarrow>
     data (updateSeed now ds s) = vec4 0 0 0 0 \<and> colorData (updateSeed now ds s) = vec4 0 0 0 0"
  by (auto simp: updateSeed_def Let_def split: if_splits)

lemma updateSolar_params_pools:
  "flares (updateSolar_params dt L) = flares L" "u_flares (updateSolar_params dt L) = u_flares L"
  "waves (updateSolar_params dt L) = waves L" "u_waves (updateSolar_params dt L) = u_waves L"
  "u_waveColor (updateSolar_params dt L) = u_waveColor L"
  by (simp_all add: updateSolar_params_def Let_def)

lemma updateSolar_ok:
  assumes "solar_wf L"
  shows "\<exists>L' e' hs rot. updateSolar e L dt = Inr (L', e') \<and> solar_wf L'
      \<and> state L' = (state L)\<lparr>holds := hs, rotSpeed := rot\<rparr>
      \<and> u_params L' = u_params (updateSolar_params (min (dt / 1000) 0.05) L)
      \<and> (\<forall>i<MAX_FLARES. \<not> active (flares L' ! i) \<longrightarrow> v4z (u_flares L' ! i) = 0)
      \<and> (\<forall>i<MAX_WAVES. \<not> active (waves L' ! i) \<longrightarrow> v4w (u_waves L' ! i) = 0)"
proof -
  define ds where "ds = min (dt / 1000) (0.05::real)"
  define L1 where "L1 = L\<lparr>u_time := fst (performance_now e) / 1000\<rparr>"
  from updateSolar_holds_shape[of "[0..<length (holds (state L1))]" L1 "snd (performance_now e)"]
  obtain ws hs e2 where
    fold: "fold updateSolar_hold [0..<length (holds (state L1))] (L1, snd (performance_now e))
             = (L1\<lparr>state := (state L1)\<lparr>holds := hs\<rparr>, waves := ws\<rparr>, e2)"
    and ws: "length ws = length (waves L1)"
    by blast
  define L2 where "L2 = L1\<lparr>state := (state L1)\<lparr>holds := hs\<rparr>, waves := ws\<rparr>"
  define L3 where "L3 = updateSolar_params ds L2"
  have wf3: "length (flares L3) = MAX_FLARES" "length (u_flares L3) = MAX_FLARES"
    "length (waves L3) = MAX_WAVES" "length (u_waves L3) = MAX_WAVES"
    "length (u_waveColor L3) = MAX_WAVES"
    using assms ws by (simp_all add: L3_def L2_def L1_def solar_wf_def updateSolar_params_pools)
  from updateSolar_flares_loop[OF wf3(1,2), of ds] obtain L4 where
    l4: "for_upto MAX_FLARES (updateSolar_flares_body ds) L3 = Inr L4"
    and fr4: "L4\<lparr>flares := flares L3, u_flares := u_flares L3\<rparr> = L3"
    and len4: "length (flares L4) = MAX_FLARES" "length (u_flares L4) = MAX_FLARES"
    and sl4: "\<forall>i<MAX_FLARES.
                 if active (flares L3 ! i)
                 then flares L4 ! i = updateFlare ds (flares L3 ! i)
                      \<and> u_flares L4 ! i = data (flares L4 ! i)
                 else flares L4 ! i = flares L3 ! i
                      \<and> u_flares L4 ! i = (u_flares L3 ! i)\<lparr>v4z := 0\<rparr>"
    by blast
  have same4: "waves L4 = waves L3" "u_waves L4 = u_waves L3" "u_waveColor L4 = u_waveColor L3"
    "state L4 = state L3" "u_params L4 = u_params L3"
    using arg_cong[OF fr4, of waves] arg_cong[OF fr4, of u_waves] arg_cong[OF fr4, of u_waveColor]
      arg_cong[OF fr4, of state] arg_cong[OF fr4, of u_params]
    by simp_all
  have wf4: "length (waves L4) = MAX_WAVES" "length (u_waves L4) = MAX_WAVES"
    "length (u_waveColor L4) = MAX_WAVES"
    using wf3 same4 by simp_all
  from updateSolar_waves_loop[OF wf4, of ds] obtain L5 where
    l5: "for_upto MAX_WAVES (updateSolar_waves_body ds) L4 = Inr L5"
    and fr5: "L5\<lparr>waves := waves L4, u_waves := u_waves L4, u_waveColor := u_waveColor L4\<rparr> = L4"
    and len5: "length (waves L5) = MAX_WAVES" "length (u_waves L5) = MAX_WAVES"
      "length (u_waveColor L5) = MAX_WAVES"
    and sl5: "\<forall>i<MAX_WAVES.
                 if active (waves L4 ! i)
                 then waves L5 ! i = updateWave ds (waves L4 ! i)
                      \<and> u_waves L5 ! i = data (waves L5 ! i)
                      \<and> u_waveColor L5 ! i = color (waves L5 ! i)
                 else waves L5 ! i = waves L4 ! i
                      \<and> u_waves L5 ! i = (u_waves L4 ! i)\<lparr>v4w := 0\<rparr>
                      \<and> u_waveColor L5 ! i = u_waveColor L4 ! i"
    by blast
  have same5: "flares L5 = flares L4" "u_flares L5 = u_flares L4"
    "state L5 = state L4" "u_params L5 = u_params L4"
    using arg_cong[OF fr5, of flares] arg_cong[OF fr5, of u_flares]
      arg_cong[OF fr5, of state] arg_cong[OF fr5, of u_params]
    by simp_all
  have run: "updateSolar e L dt = Inr (L5, e2)"
    using fold l4 l5 unfolding L3_def L2_def L1_def ds_def
    by (simp add: updateSolar_def Let_def case_prod_beta)
  have wf5: "solar_wf L5"
    using len4 len5 same5 by (simp add: solar_wf_def)
  have st: "state L5 = (state L)\<lparr>holds := hs,
      rotSpeed := rotSpeed (state (updateSolar_params ds L2))\<rparr>"
    by (simp add: same5 same4 L3_def L2_def L1_def updateSolar_params_def Let_def)
  have par: "u_params L5 = u_params (updateSolar_params ds L)"
    by (simp add: same5 same4 L3_def L2_def L1_def updateSolar_params_def Let_def)
  have fl: "v4z (u_flares L5 ! i) = 0" if "i < MAX_FLARES" "\<not> active (flares L5 ! i)" for i
  proof (cases "active (flares L3 ! i)")
    case True
    with sl4 that(1) have "flares L4 ! i = updateFlare ds (flares L3 ! i)"
      "u_flares L4 ! i = data (flares L4 ! i)" by auto
    with that(2) True updateFlare_inactive[of ds "flares L3 ! i"] show ?thesis
      by (simp add: same5)
  next
    case False
    with sl4 that(1) have "u_flares L4 ! i = (u_flares L3 ! i)\<lparr>v4z := 0\<rparr>" by auto
    then show ?thesis by (simp add: same5)
  qed
  have wv: "v4w (u_waves L5 ! i) = 0" if "i < MAX_WAVES" "\<not> active (waves L5 ! i)" for i
  proof (cases "active (waves L4 ! i)")
    case True
    with sl5 that(1) have "waves L5 ! i = updateWave ds (waves L4 ! i)"
      "u_waves L5 ! i = data (waves L5 ! i)" by auto
    with that(2) True updateWave_inactive[of ds "waves L4 ! i"] show ?thesis by simp
  next
    case False
    with sl5 that(1) have "u_waves L5 ! i = (u_waves L4 ! i)\<lparr>v4w := 0\<rparr>" by auto
    then show ?thesis by simp
  qed
  from run wf5 st par fl wv show ?thesis
    unfolding ds_def by blast
qed

lemma created_wf:
  "bubbles_wf createBubblesLayer" "plasma_wf createPlasmaLayer" "trees_wf createTreesLayer"
  "solar_wf (fst (createSolarLayer e))" "ripples_wf createWavesLayer" "ripples_wf createWaterLayer"
  by (simp_all add: bubbles_wf_def plasma_wf_def trees_wf_def solar_wf_def ripples_wf_def
      createBubblesLayer_def createPlasmaLayer_def createTreesLayer_def createSolarLayer_def
      createWavesLayer_def createWaterLayer_def case_prod_beta Let_def)



text \<open>
  Claim C3. After an update, every slot that is inactive has a zero magnitude channel in
  the record written to the uniform array at its index: the radius \<open>z\<close> of a bubble, the
  size \<open>z\<close> of a plasma particle and of a solar flare, the strength \<open>w\<close> of a solar
  wave; a tree seed's two records are zero altogether. This holds for the slots that were
  inactive before the call and for those the call deactivates.
\<close>

theorem inactive_slots_marshal_zero:
  assumes "bubbles_wf B" and "plasma_wf P" and "trees_wf T" and "solar_wf S"
    and "\<forall>b\<in>set (bubbles B). active b \<longrightarrow> v4w (velocity b) \<noteq> 0"
  shows "(\<exists>B'. updateBubbles B dt = Inr B'
            \<and> (\<forall>i<MAX_BUBBLES. \<not> active (bubbles B' ! i) \<longrightarrow> v4z (u_bubbles B' ! i) = 0))
       \<and> (\<exists>P' e'. updatePlasma e P dt = Inr (P', e')
            \<and> (\<forall>i<MAX_PARTICLES. \<not> active (particles P' ! i) \<longrightarrow> v4z (u_particles P' ! i) = 0))
       \<and> (\<exists>T' e'. updateTrees e T dt = Inr (T', e')
            \<and> (\<forall>i<MAX_SEEDS. \<not> active (seeds T' ! i) \<longrightarrow>
                  u_seeds T' ! i = vec4 0 0 0 0 \<and> u_seed_colors T' ! i = vec4 0 0 0 0))
       \<and> (\<exists>S' e'. updateSolar e S dt = Inr (S', e')
            \<and> (\<forall>i<MAX_FLARES. \<not> active (flares S' ! i) \<longrightarrow> v4z (u_flares S' ! i) = 0)
            \<and> (\<forall>i<MAX_WAVES. \<not> active (waves S' ! i) \<longrightarrow> v4w (u_waves S' ! i) = 0))"
proof (intro conjI)
  define ds where "ds = min (dt / 1000) (0.05::real)"
  from updateBubbles_slots[OF assms(1), of dt] obtain B' where
    run: "updateBubbles B dt = Inr B'" and
    slots: "\<forall>i<MAX_BUBBLES.
                 if active (bubbles B ! i)
                 then bubbles B' ! i = fst (updateBubble (u_time B) ds (bubbles B ! i))
                      \<and> u_bubbles B' ! i = snd (updateBubble (u_time B) ds (bubbles B ! i))
                 else bubbles B' ! i = bubbles B ! i \<and> u_bubbles B' ! i = vec4 0 0 0 0"
    unfolding ds_def by blast
  have "v4z (u_bubbles B' ! i) = 0" if "i < MAX_BUBBLES" "\<not> active (bubbles B' ! i)" for i
  proof (cases "active (bubbles B ! i)")
    case True
    with slots that(1) have "bubbles B' ! i = fst (updateBubble (u_time B) ds (bubbles B ! i))"
      "u_bubbles B' ! i = snd (updateBubble (u_time B) ds (bubbles B ! i))"
      by simp_all
    with that(2) True updateBubble_inactive[of "u_time B" ds "bubbles B ! i"] show ?thesis by simp
  next
    case False
    with slots that(1) have "u_bubbles B' ! i = vec4 0 0 0 0" by simp
    then show ?thesis by simp
  qed
  with run show "\<exists>B'. updateBubbles B dt = Inr B'
            \<and> (\<forall>i<MAX_BUBBLES. \<not> active (bubbles B' ! i) \<longrightarrow> v4z (u_bubbles B' ! i) = 0)"
    by blast
next
  define ds where "ds = min (dt / 1000) (0.05::real)"
  from updatePlasma_slots[OF assms(2), of e dt] obtain P' e' where
    run: "updatePlasma e P dt = Inr (P', e')" and
    slots: "\<forall>i<MAX_PARTICLES.
                 if active (particles P ! i)
                 then (\<exists>r. particles P' ! i = updateParticle ds r (particles P ! i))
                      \<and> u_particles P' ! i = data (particles P' ! i)
                 else particles P' ! i = particles P ! i
                      \<and> u_particles P' ! i = (u_particles P ! i)\<lparr>v4z := 0\<rparr>"
    unfolding ds_def by blast
  have "v4z (u_particles P' ! i) = 0" if "i < MAX_PARTICLES" "\<not> active (particles P' ! i)" for i
  proof (cases "active (particles P ! i)")
    case True
    with slots that(1) have "(\<exists>r. particles P' ! i = updateParticle ds r (particles P ! i))
      \<and> u_particles P' ! i = data (particles P' ! i)" by simp
    then obtain r where "particles P' ! i = updateParticle ds r (particles P ! i)"
      "u_particles P' ! i = data (particles P' ! i)" by blast
    with that(2) True updateParticle_inactive[of ds r "particles P ! i"] show ?thesis by simp
  next
    case False
    with slots that(1) have "u_particles P' ! i = (u_particles P ! i)\<lparr>v4z := 0\<rparr>" by simp
    then show ?thesis by simp
  qed
  with run show "\<exists>P' e'. updatePlasma e P dt = Inr (P', e')
            \<and> (\<forall>i<MAX_PARTICLES. \<not> active (particles P' ! i) \<longrightarrow> v4z (u_particles P' ! i) = 0)"
    by blast
next
  define ds where "ds = min (dt / 1000) (0.05::real)"
  define now where "now = fst (performance_now e) / 1000"
  from updateTrees_slots[OF assms(3), of e dt] obtain T' e' where
    run: "updateTrees e T dt = Inr (T', e')" and
    slots: "\<forall>i<MAX_SEEDS.
                 if active (seeds T ! i)
                 then seeds T' ! i = updateSeed now ds (seeds T ! i)
                      \<and> u_seeds T' ! i = data (seeds T' ! i)
                      \<and> u_seed_colors T' ! i = colorData (seeds T' ! i)
                 else seeds T' ! i = seeds T ! i
                      \<and> u_seeds T' ! i = vec4 0 0 0 0 \<and> u_seed_colors T' ! i = vec4 0 0 0 0"
    unfolding ds_def now_def by blast
  have "u_seeds T' ! i = vec4 0 0 0 0 \<and> u_seed_colors T' ! i = vec4 0 0 0 0"
    if "i < MAX_SEEDS" "\<not> active (seeds T' ! i)" for i
  proof (cases "active (seeds T ! i)")
    case True
    with slots that(1) have "seeds T' ! i = updateSeed now ds (seeds T ! i)"
      "u_seeds T' ! i = data (seeds T' ! i)" "u_seed_colors T' ! i = colorData (seeds T' ! i)"
      by auto
    with that(2) True updateSeed_inactive[of now ds "seeds T ! i"] show ?thesis by simp
  next
    case False
    with slots that(1) show ?thesis by simp
  qed
  with run show "\<exists>T' e'. updateTrees e T dt = Inr (T', e')
            \<and> (\<forall>i<MAX_SEEDS. \<not> active (seeds T' ! i) \<longrightarrow>
                  u_seeds T' ! i = vec4 0 0 0 0 \<and> u_seed_colors T' ! i = vec4 0 0 0 0)"
    by blast
next
  from updateSolar_ok[OF assms(4), of e dt]
  show "\<exists>S' e'. updateSolar e S dt = Inr (S', e')
            \<and> (\<forall>i<MAX_FLARES. \<not> active (flares S' ! i) \<longrightarrow> v4z (u_flares S' ! i) = 0)
            \<and> (\<forall>i<MAX_WAVES. \<not> active (waves S' ! i) \<longrightarrow> v4w (u_waves S' ! i) = 0)"
    by blast
qed

theorem inactive_slots_marshal_zero_witness:
  "(\<exists>B'. updateBubbles createBubblesLayer 16 = Inr B'
            \<and> (\<forall>i<MAX_BUBBLES. \<not> active (bubbles B' ! i) \<longrightarrow> v4z (u_bubbles B' ! i) = 0))
       \<and> (\<exists>P' e'. updatePlasma env0 createPlasmaLayer 16 = Inr (P', e')
            \<and> (\<forall>i<MAX_PARTICLES. \<not> active (particles P' ! i) \<longrightarrow> v4z (u_particles P' ! i) = 0))
       \<and> (\<exists>T' e'. updateTrees env0 createTreesLayer 16 = Inr (T', e')
            \<and> (\<forall>i<MAX_SEEDS. \<not> active (seeds T' ! i) \<longrightarrow>
                  u_seeds T' ! i = vec4 0 0 0 0 \<and> u_seed_colors T' ! i = vec4 0 0 0 0))
       \<and> (\<exists>S' e'. updateSolar env0 (fst (createSolarLayer env0)) 16 = Inr (S', e')
            \<and> (\<forall>i<MAX_FLARES. \<not> active (flares S' ! i) \<longrightarrow> v4z (u_flares S' ! i) = 0)
            \<and> (\<forall>i<MAX_WAVES. \<not> active (waves S' ! i) \<longrightarrow> v4w (u_waves S' ! i) = 0))"
proof -
  have "\<forall>b\<in>set (bubbles createBubblesLayer). active b \<longrightarrow> v4w (velocity b) \<noteq> 0"
    by (simp add: createBubblesLayer_def)
  from inactive_slots_marshal_zero[OF created_wf(1-4) this, of 16 env0]
  show ?thesis .
qed

section \<open>The age ratio of a plasma particle\<close>

lemma find_inactive_replicate:
  "0 < n \<Longrightarrow> \<not> active s \<Longrightarrow> find_inactive (replicate n s) = Some 0"
  by (cases n) simp_all

lemma plasma_after_note_slot0:
  shows "particles (fst plasma_after_note) ! 0 =
     \<lparr>data = vec4 0.5 0.1 0.1 0, active = True, velocity = vec4 0 0.15 4 0.25\<rparr>"
    "plasma_wf (fst plasma_after_note)"
proof -
  have cnt: "nat (plasmaNoteOnCount 0) = 1" by (simp add: plasmaNoteOnCount_def)
  have fi: "find_inactive (particles createPlasmaLayer) = Some 0"
    by (simp add: createPlasmaLayer_def MAX_PARTICLES_def find_inactive_replicate)
  have eq: "fst plasma_after_note = createPlasmaLayer\<lparr>particles := (particles createPlasmaLayer)
      [0 := \<lparr>data = vec4 0.5 0.1 0.1 0, active = True, velocity = vec4 0 0.15 4 0.25\<rparr>]\<rparr>"
    unfolding plasma_after_note_def onPlasmaNoteOn_def cnt
    by (simp add: addHotspot_def fi Let_def Math_random_def env0_def)
      (simp add: createPlasmaLayer_def new_Vector4_def MAX_PARTICLES_def)
  show "particles (fst plasma_after_note) ! 0 =
     \<lparr>data = vec4 0.5 0.1 0.1 0, active = True, velocity = vec4 0 0.15 4 0.25\<rparr>"
    by (simp add: eq createPlasmaLayer_def MAX_PARTICLES_def)
  show "plasma_wf (fst plasma_after_note)"
    by (simp add: eq plasma_wf_def createPlasmaLayer_def)
qed

text \<open>
  Claim C2 says that one update adds \<open>dt / L\<close> to the age ratio \<^verbatim>\<open>data.w\<close> of a plasma
  hotspot of lifespan \<open>L\<close>. \<^verbatim>\<open>addHotspot\<close> stores \<open>L\<close> in \<^verbatim>\<open>velocity.z\<close> and \<open>1 / L\<close> in
  \<^verbatim>\<open>velocity.w\<close>, \<^verbatim>\<open>updatePlasma\<close> scales the whole velocity vector by 0.98 and then
  adds \<^verbatim>\<open>deltaSeconds * p.velocity.z\<close>: for the hotspot of \<open>plasma_after_note\<close>
  (\<open>L = 4\<close>) and a 20 ms frame the age ratio becomes \<open>0.02 * (4 * 0.98)\<close>, not
  \<open>0.02 / 4\<close>.
\<close>

theorem plasma_age_ratio_step:
  "\<exists>P' e'. updatePlasma (snd plasma_after_note) (fst plasma_after_note) 20 = Inr (P', e')
      \<and> v4z (velocity (particles (fst plasma_after_note) ! 0)) = 4
      \<and> v4w (data (particles (fst plasma_after_note) ! 0)) = 0
      \<and> v4w (data (particles P' ! 0)) = 0.02 * (4 * 0.98)
      \<and> v4w (data (particles P' ! 0)) \<noteq> 0.02 / 4"
proof -
  from updatePlasma_slots[OF plasma_after_note_slot0(2), of "snd plasma_after_note" 20]
  obtain P' e' where
    run: "updatePlasma (snd plasma_after_note) (fst plasma_after_note) 20 = Inr (P', e')" and
    slots: "\<forall>i<MAX_PARTICLES.
                 if active (particles (fst plasma_after_note) ! i)
                 then (\<exists>r. particles P' ! i
                            = updateParticle (min (20 / 1000) 0.05) r (particles (fst plasma_after_note) ! i))
                      \<and> u_particles P' ! i = data (particles P' ! i)
                 else particles P' ! i = particles (fst plasma_after_note) ! i
                      \<and> u_particles P' ! i = (u_particles (fst plasma_after_note) ! i)\<lparr>v4z := 0\<rparr>"
    by blast
  have "0 < MAX_PARTICLES" by (simp add: MAX_PARTICLES_def)
  with spec[OF slots, of 0] plasma_after_note_slot0(1) obtain r where
    "particles P' ! 0 = updateParticle (min (20 / 1000) 0.05) r
       \<lparr>data = vec4 0.5 0.1 0.1 0, active = True, velocity = vec4 0 0.15 4 0.25\<rparr>"
    by auto
  then have "v4w (data (particles P' ! 0)) = 0.02 * (4 * 0.98)"
    by (simp add: updateParticle_def Let_def multiplyScalar_def)
  with run plasma_after_note_slot0(1) show ?thesis by simp
qed



section \<open>Updates with a zero delta\<close>

lemma updateBubble_zero_delta:
  "active b \<Longrightarrow> fst (updateBubble now 0 b) =
     b\<lparr>data := (data b)
          \<lparr>v4x := v4x (data b) + sin (now * 1.5 + v4y (data b) * 15.0) * 0.0003,
           v4z := (if age b / v4w (velocity b) > 1.0 \<or> v4y (data b) > 1.1 then v4z (data b)
                   else max 0.0
                     (if age b / v4w (velocity b) < 0.1
                      then v4z (velocity b) * (age b / v4w (velocity b) / 0.1)
                      else v4z (velocity b) *
                           (1.0 - (age b / v4w (velocity b) - 0.1) / (1.0 - 0.1))))\<rparr>,
        active := \<not> (age b / v4w (velocity b) > 1.0 \<or> v4y (data b) > 1.1)\<rparr>"
  by (simp add: updateBubble_def Let_def)

lemma updateParticle_zero_delta:
  "active p \<Longrightarrow> updateParticle 0 r p =
     p\<lparr>velocity := multiplyScalar (velocity p) 0.98,
       active := \<not> v4w (data p) > 1.0,
       data := (data p)\<lparr>v4z := (if v4w (data p) > 1.0 then 0 else v4z (data p))\<rparr>\<rparr>"
  by (simp add: updateParticle_def Let_def multiplyScalar_def)

text \<open>
  Claim C8, as amended. With \<^verbatim>\<open>deltaMs = 0\<close> an update leaves inactive slots alone and
  keeps, for an active bubble, its velocity, age and height, and for an active plasma
  particle its position and age ratio. It is not a no-op: an active bubble moves
  sideways by the sway term \<open>sin (1.5 * now + 15 * y) * 0.0003\<close>, the velocity
  components \<open>vx\<close> and \<open>vy\<close> of an active plasma particle are damped by the factor 0.98,
  and a slot stays active exactly when it is within its limits (age ratio at most 1,
  and for a bubble \<open>y \<le> 1.1\<close>). A plasma
  particle that stays active keeps its size; the radius of a bubble that stays active is
  set to what the pop-in and fade-out law gives at its unchanged age ratio.
\<close>

theorem zero_delta_update:
  assumes "bubbles_wf B" and "plasma_wf P"
    and "\<forall>b\<in>set (bubbles B). active b \<longrightarrow> v4w (velocity b) \<noteq> 0"
  shows "(\<exists>B'. updateBubbles B 0 = Inr B'
            \<and> (\<forall>i<MAX_BUBBLES.
                  if active (bubbles B ! i)
                  then velocity (bubbles B' ! i) = velocity (bubbles B ! i)
                     \<and> age (bubbles B' ! i) = age (bubbles B ! i)
                     \<and> v4y (data (bubbles B' ! i)) = v4y (data (bubbles B ! i))
                     \<and> v4x (data (bubbles B' ! i)) = v4x (data (bubbles B ! i))
                          + sin (u_time B * 1.5 + v4y (data (bubbles B ! i)) * 15.0) * 0.0003
                     \<and> active (bubbles B' ! i)
                          = (age (bubbles B ! i) / v4w (velocity (bubbles B ! i)) \<le> 1.0
                             \<and> v4y (data (bubbles B ! i)) \<le> 1.1)
                     \<and> (active (bubbles B' ! i) \<longrightarrow>
                          v4z (data (bubbles B' ! i)) = max 0.0
                            (if age (bubbles B ! i) / v4w (velocity (bubbles B ! i)) < 0.1
                             then v4z (velocity (bubbles B ! i)) * (age (bubbles B ! i) / v4w (velocity (bubbles B ! i)) / 0.1)
                             else v4z (velocity (bubbles B ! i)) *
                                  (1.0 - (age (bubbles B ! i) / v4w (velocity (bubbles B ! i)) - 0.1) / (1.0 - 0.1))))
                  else bubbles B' ! i = bubbles B ! i))
       \<and> (\<exists>P' e'. updatePlasma e P 0 = Inr (P', e')
            \<and> (\<forall>i<MAX_PARTICLES.
                  if active (particles P ! i)
                  then v4x (data (particles P' ! i)) = v4x (data (particles P ! i))
                     \<and> v4y (data (particles P' ! i)) = v4y (data (particles P ! i))
                     \<and> v4w (data (particles P' ! i)) = v4w (data (particles P ! i))
                     \<and> v4x (velocity (particles P' ! i)) = v4x (velocity (particles P ! i)) * 0.98
                     \<and> v4y (velocity (particles P' ! i)) = v4y (velocity (particles P ! i)) * 0.98
                     \<and> active (particles P' ! i) = (v4w (data (particles P ! i)) \<le> 1.0)
                     \<and> v4z (data (particles P' ! i))
                          = (if v4w (data (particles P ! i)) \<le> 1.0
                             then v4z (data (particles P ! i)) else 0)
                  else particles P' ! i = particles P ! i))"
proof (intro conjI)
  have ds0: "min (0 / 1000) (0.05::real) = 0" by simp
  from updateBubbles_slots[OF assms(1), of 0, unfolded ds0] obtain B' where
    run: "updateBubbles B 0 = Inr B'" and
    slots: "\<forall>i<MAX_BUBBLES.
                 if active (bubbles B ! i)
                 then bubbles B' ! i = fst (updateBubble (u_time B) 0 (bubbles B ! i))
                      \<and> u_bubbles B' ! i = snd (updateBubble (u_time B) 0 (bubbles B ! i))
                 else bubbles B' ! i = bubbles B ! i \<and> u_bubbles B' ! i = vec4 0 0 0 0"
    by blast
  have "if active (bubbles B ! i)
        then velocity (bubbles B' ! i) = velocity (bubbles B ! i)
           \<and> age (bubbles B' ! i) = age (bubbles B ! i)
           \<and> v4y (data (bubbles B' ! i)) = v4y (data (bubbles B ! i))
           \<and> v4x (data (bubbles B' ! i)) = v4x (data (bubbles B ! i))
                + sin (u_time B * 1.5 + v4y (data (bubbles B ! i)) * 15.0) * 0.0003
           \<and> active (bubbles B' ! i)
                = (age (bubbles B ! i) / v4w (velocity (bubbles B ! i)) \<le> 1.0
                   \<and> v4y (data (bubbles B ! i)) \<le> 1.1)
           \<and> (active (bubbles B' ! i) \<longrightarrow>
                v4z (data (bubbles B' ! i)) = max 0.0
                  (if age (bubbles B ! i) / v4w (velocity (bubbles B ! i)) < 0.1
                   then v4z (velocity (bubbles B ! i)) * (age (bubbles B ! i) / v4w (velocity (bubbles B ! i)) / 0.1)
                   else v4z (velocity (bubbles B ! i)) *
                        (1.0 - (age (bubbles B ! i) / v4w (velocity (bubbles B ! i)) - 0.1) / (1.0 - 0.1))))
        else bubbles B' ! i = bubbles B ! i" if "i < MAX_BUBBLES" for i
    using spec[OF slots, of i] that
    by (auto simp: updateBubble_zero_delta not_less)
  with run show "\<exists>B'. updateBubbles B 0 = Inr B'
            \<and> (\<forall>i<MAX_BUBBLES.
                  if active (bubbles B ! i)
                  then velocity (bubbles B' ! i) = velocity (bubbles B ! i)
                     \<and> age (bubbles B' ! i) = age (bubbles B ! i)
                     \<and> v4y (data (bubbles B' ! i)) = v4y (data (bubbles B ! i))
                     \<and> v4x (data (bubbles B' ! i)) = v4x (data (bubbles B ! i))
                          + sin (u_time B * 1.5 + v4y (data (bubbles B ! i)) * 15.0) * 0.0003
                     \<and> active (bubbles B' ! i)
                          = (age (bubbles B ! i) / v4w (velocity (bubbles B ! i)) \<le> 1.0
                             \<and> v4y (data (bubbles B ! i)) \<le> 1.1)
                     \<and> (active (bubbles B' ! i) \<longrightarrow>
                          v4z (data (bubbles B' ! i)) = max 0.0
                            (if age (bubbles B ! i) / v4w (velocity (bubbles B ! i)) < 0.1
                             then v4z (velocity (bubbles B ! i)) * (age (bubbles B ! i) / v4w (velocity (bubbles B ! i)) / 0.1)
                             else v4z (velocity (bubbles B ! i)) *
                                  (1.0 - (age (bubbles B ! i) / v4w (velocity (bubbles B ! i)) - 0.1) / (1.0 - 0.1))))
                  else bubbles B' ! i = bubbles B ! i)"
    by blast
next
  have ds0: "min (0 / 1000) (0.05::real) = 0" by simp
  from updatePlasma_slots[OF assms(2), of e 0, unfolded ds0] obtain P' e' where
    run: "updatePlasma e P 0 = Inr (P', e')" and
    slots: "\<forall>i<MAX_PARTICLES.
                 if active (particles P ! i)
                 then (\<exists>r. particles P' ! i = updateParticle 0 r (particles P ! i))
                      \<and> u_particles P' ! i = data (particles P' ! i)
                 else particles P' ! i = particles P ! i
                      \<and> u_particles P' ! i = (u_particles P ! i)\<lparr>v4z := 0\<rparr>"
    by blast
  have "if active (particles P ! i)
        then v4x (data (particles P' ! i)) = v4x (data (particles P ! i))
           \<and> v4y (data (particles P' ! i)) = v4y (data (particles P ! i))
           \<and> v4w (data (particles P' ! i)) = v4w (data (particles P ! i))
           \<and> v4x (velocity (particles P' ! i)) = v4x (velocity (particles P ! i)) * 0.98
           \<and> v4y (velocity (particles P' ! i)) = v4y (velocity (particles P ! i)) * 0.98
           \<and> active (particles P' ! i) = (v4w (data (particles P ! i)) \<le> 1.0)
           \<and> v4z (data (particles P' ! i))
                = (if v4w (data (particles P ! i)) \<le> 1.0
                   then v4z (data (particles P ! i)) else 0)
        else particles P' ! i = particles P ! i" if "i < MAX_PARTICLES" for i
    using spec[OF slots, of i] that
    by (auto simp: updateParticle_zero_delta multiplyScalar_def not_less)
  with run show "\<exists>P' e'. updatePlasma e P 0 = Inr (P', e')
            \<and> (\<forall>i<MAX_PARTICLES.
                  if active (particles P ! i)
                  then v4x (data (particles P' ! i)) = v4x (data (particles P ! i))
                     \<and> v4y (data (particles P' ! i)) = v4y (data (particles P ! i))
                     \<and> v4w (data (particles P' ! i)) = v4w (data (particles P ! i))
                     \<and> v4x (velocity (particles P' ! i)) = v4x (velocity (particles P ! i)) * 0.98
                     \<and> v4y (velocity (particles P' ! i)) = v4y (velocity (particles P ! i)) * 0.98
                     \<and> active (particles P' ! i) = (v4w (data (particles P ! i)) \<le> 1.0)
                     \<and> v4z (data (particles P' ! i))
                          = (if v4w (data (particles P ! i)) \<le> 1.0
                             then v4z (data (particles P ! i)) else 0)
                  else particles P' ! i = particles P ! i)"
    by blast
qed


theorem zero_delta_update_witness:
  "(\<exists>B'. updateBubbles culled_example 0 = Inr B'
      \<and> velocity (bubbles B' ! 0) = velocity (bubbles culled_example ! 0)
      \<and> age (bubbles B' ! 0) = age (bubbles culled_example ! 0)
      \<and> v4y (data (bubbles B' ! 0)) = v4y (data (bubbles culled_example ! 0))
      \<and> active (bubbles B' ! 0))
   \<and> (\<exists>P' e'. updatePlasma env0 (fst plasma_after_note) 0 = Inr (P', e')
      \<and> v4x (data (particles P' ! 0)) = v4x (data (particles (fst plasma_after_note) ! 0))
      \<and> v4y (data (particles P' ! 0)) = v4y (data (particles (fst plasma_after_note) ! 0))
      \<and> v4w (data (particles P' ! 0)) = v4w (data (particles (fst plasma_after_note) ! 0))
      \<and> active (particles P' ! 0))"
proof -
  have wf: "bubbles_wf culled_example"
    by (simp add: bubbles_wf_def culled_example_def createBubblesLayer_def)
  have life: "\<forall>b\<in>set (bubbles culled_example). active b \<longrightarrow> v4w (velocity b) \<noteq> 0"
  proof
    fix b assume "b \<in> set (bubbles culled_example)"
    then have "b \<in> insert \<lparr>data = vec4 0.5 1.09 0.1 0, active = True, velocity = vec4 0 1 0.1 5, age = 0\<rparr>
        (set (bubbles createBubblesLayer))"
      using set_update_subset_insert by (fastforce simp: culled_example_def)
    then show "active b \<longrightarrow> v4w (velocity b) \<noteq> 0"
      by (auto simp: createBubblesLayer_def)
  qed
  have pos: "0 < MAX_BUBBLES" "0 < MAX_PARTICLES" by (simp_all add: MAX_BUBBLES_def MAX_PARTICLES_def)
  have b0: "bubbles culled_example ! 0 = \<lparr>data = vec4 0.5 1.09 0.1 0, active = True, velocity = vec4 0 1 0.1 5, age = 0\<rparr>"
    using pos by (simp add: culled_example_def createBubblesLayer_def)
  from zero_delta_update[OF wf plasma_after_note_slot0(2) life, of env0]
  obtain B' P' e' where
    b: "updateBubbles culled_example 0 = Inr B'"
      "\<forall>i<MAX_BUBBLES.
                  if active (bubbles culled_example ! i)
                  then velocity (bubbles B' ! i) = velocity (bubbles culled_example ! i)
                     \<and> age (bubbles B' ! i) = age (bubbles culled_example ! i)
                     \<and> v4y (data (bubbles B' ! i)) = v4y (data (bubbles culled_example ! i))
                     \<and> v4x (data (bubbles B' ! i)) = v4x (data (bubbles culled_example ! i))
                          + sin (u_time culled_example * 1.5 + v4y (data (bubbles culled_example ! i)) * 15.0) * 0.0003
                     \<and> active (bubbles B' ! i)
                          = (age (bubbles culled_example ! i) / v4w (velocity (bubbles culled_example ! i)) \<le> 1.0
                             \<and> v4y (data (bubbles culled_example ! i)) \<le> 1.1)
                     \<and> (active (bubbles B' ! i) \<longrightarrow>
                          v4z (data (bubbles B' ! i)) = max 0.0
                            (if age (bubbles culled_example ! i) / v4w (velocity (bubbles culled_example ! i)) < 0.1
                             then v4z (velocity (bubbles culled_example ! i)) * (age (bubbles culled_example ! i) / v4w (velocity (bubbles culled_example ! i)) / 0.1)
                             else v4z (velocity (bubbles culled_example ! i)) *
                                  (1.0 - (age (bubbles culled_example ! i) / v4w (velocity (bubbles culled_example ! i)) - 0.1) / (1.0 - 0.1))))
                  else bubbles B' ! i = bubbles culled_example ! i"
    and p: "updatePlasma env0 (fst plasma_after_note) 0 = Inr (P', e')"
      "\<forall>i<MAX_PARTICLES.
                  if active (particles (fst plasma_after_note) ! i)
                  then v4x (data (particles P' ! i)) = v4x (data (particles (fst plasma_after_note) ! i))
                     \<and> v4y (data (particles P' ! i)) = v4y (data (particles (fst plasma_after_note) ! i))
                     \<and> v4w (data (particles P' ! i)) = v4w (data (particles (fst plasma_after_note) ! i))
                     \<and> v4x (velocity (particles P' ! i)) = v4x (velocity (particles (fst plasma_after_note) ! i)) * 0.98
                     \<and> v4y (velocity (particles P' ! i)) = v4y (velocity (particles (fst plasma_after_note) ! i)) * 0.98
                     \<and> active (particles P' ! i) = (v4w (data (particles (fst plasma_after_note) ! i)) \<le> 1.0)
                     \<and> v4z (data (particles P' ! i))
                          = (if v4w (data (particles (fst plasma_after_note) ! i)) \<le> 1.0
                             then v4z (data (particles (fst plasma_after_note) ! i)) else 0)
                  else particles P' ! i = particles (fst plasma_after_note) ! i"
    by blast
  from spec[OF b(2), of 0] pos(1) b0 have
    "velocity (bubbles B' ! 0) = velocity (bubbles culled_example ! 0)
      \<and> age (bubbles B' ! 0) = age (bubbles culled_example ! 0)
      \<and> v4y (data (bubbles B' ! 0)) = v4y (data (bubbles culled_example ! 0))
      \<and> active (bubbles B' ! 0)"
    by simp
  moreover from spec[OF p(2), of 0] pos(2) plasma_after_note_slot0(1) have
    "v4x (data (particles P' ! 0)) = v4x (data (particles (fst plasma_after_note) ! 0))
      \<and> v4y (data (particles P' ! 0)) = v4y (data (particles (fst plasma_after_note) ! 0))
      \<and> v4w (data (particles P' ! 0)) = v4w (data (particles (fst plasma_after_note) ! 0))
      \<and> active (particles P' ! 0)"
    by simp
  ultimately show ?thesis using b(1) p(1) by blast
qed

text \<open>
  Claim C8 as stated fails: after one note-on, an update with \<^verbatim>\<open>deltaMs = 0\<close> changes the
  velocity of the hotspot in slot 0, from \<open>vy = 0.15\<close> to \<open>0.15 * 0.98\<close>.
\<close>

theorem zero_delta_changes_velocity:
  "\<exists>P' e'. updatePlasma (snd plasma_after_note) (fst plasma_after_note) 0 = Inr (P', e')
      \<and> active (particles (fst plasma_after_note) ! 0)
      \<and> v4y (velocity (particles (fst plasma_after_note) ! 0)) = 0.15
      \<and> v4y (velocity (particles P' ! 0)) = 0.147
      \<and> velocity (particles P' ! 0) \<noteq> velocity (particles (fst plasma_after_note) ! 0)"
proof -
  from updatePlasma_slots[OF plasma_after_note_slot0(2), of "snd plasma_after_note" 0]
  obtain P' e' where
    run: "updatePlasma (snd plasma_after_note) (fst plasma_after_note) 0 = Inr (P', e')" and
    slots: "\<forall>i<MAX_PARTICLES.
                 if active (particles (fst plasma_after_note) ! i)
                 then (\<exists>r. particles P' ! i
                            = updateParticle (min (0 / 1000) 0.05) r (particles (fst plasma_after_note) ! i))
                      \<and> u_particles P' ! i = data (particles P' ! i)
                 else particles P' ! i = particles (fst plasma_after_note) ! i
                      \<and> u_particles P' ! i = (u_particles (fst plasma_after_note) ! i)\<lparr>v4z := 0\<rparr>"
    by blast
  have "0 < MAX_PARTICLES" by (simp add: MAX_PARTICLES_def)
  with spec[OF slots, of 0] plasma_after_note_slot0(1) obtain r where
    "particles P' ! 0 = updateParticle (min (0 / 1000) 0.05) r
       \<lparr>data = vec4 0.5 0.1 0.1 0, active = True, velocity = vec4 0 0.15 4 0.25\<rparr>"
    by auto
  then have "v4y (velocity (particles P' ! 0)) = 0.147"
    by (simp add: updateParticle_def Let_def multiplyScalar_def)
  with run plasma_after_note_slot0(1) show ?thesis by auto
qed

section \<open>Spawning into a full pool\<close>

lemma full_flares_example_full:
  "find_inactive (flares full_flares_example) = None"
  by (simp add: find_inactive_None full_flares_example_def)

lemma full_bubbles_example_full:
  "find_inactive (bubbles full_bubbles_example) = None"
proof -
  have "\<forall>b\<in>set (bubbles full_bubbles_example). active b"
  proof
    fix b assume "b \<in> set (bubbles full_bubbles_example)"
    then have "b \<in> insert \<lparr>data = vec4 0.5 0.9 0.1 0, active = True, velocity = vec4 0 0.1 0.1 6, age = 5\<rparr>
        (set (replicate MAX_BUBBLES
           \<lparr>data = vec4 0.5 0.5 0.1 0, active = True, velocity = vec4 0 0.1 0.1 6, age = 1\<rparr>))"
      using set_update_subset_insert by (fastforce simp: full_bubbles_example_def)
    then show "active b" by auto
  qed
  then show ?thesis by (simp add: find_inactive_None)
qed

text \<open>
  On a full bubble pool \<^verbatim>\<open>onBubbleNoteOn\<close> takes \<^verbatim>\<open>layer.bubbles[0]\<close>: in
  \<open>full_bubbles_example\<close> the new bubble replaces the bubble of age 1 in slot 0, and the
  bubble of age 5 in slot 1 stays.
\<close>

lemma bubble_spawn_overwrites_first_slot:
  "\<exists>L' e'. onBubbleNoteOn env0 full_bubbles_example 100 0 = Inr (L', e')
      \<and> age (bubbles full_bubbles_example ! 0) = 1
      \<and> age (bubbles full_bubbles_example ! 1) = 5
      \<and> age (bubbles L' ! 0) = 0
      \<and> bubbles L' ! 1 = bubbles full_bubbles_example ! 1"
proof -
  have ne: "bubbles full_bubbles_example \<noteq> []"
    by (simp add: full_bubbles_example_def MAX_BUBBLES_def)
  have len: "length (bubbles full_bubbles_example) = 100"
    by (simp add: full_bubbles_example_def MAX_BUBBLES_def)
  have b0: "age (bubbles full_bubbles_example ! 0) = 1" "age (bubbles full_bubbles_example ! 1) = 5"
    by (simp_all add: full_bubbles_example_def MAX_BUBBLES_def)
  show ?thesis
    using ne len b0
    by (simp add: onBubbleNoteOn_def find_inactive_or_first_def full_bubbles_example_full
        Let_def case_prod_beta)
qed

text \<open>
  Claim C5, as amended. When every slot is active, a bubble spawn succeeds: the new
  bubble (active, age 0, radius 0, at \<open>y = -0.1\<close>) takes the place of one bubble and the
  other slots stay as they are. A flare spawn is dropped: \<^verbatim>\<open>spawnFlare\<close> returns at
  \<^verbatim>\<open>if (!p) return;\<close> and neither the layer nor the host's random source changes.
\<close>

theorem spawn_on_full_pool:
  assumes "bubbles_wf B" and "\<forall>b\<in>set (bubbles B). active b" and "\<forall>f\<in>set (flares S). active f"
  shows "(\<exists>i<MAX_BUBBLES. \<exists>b e'.
            onBubbleNoteOn e B vel h = Inr (B\<lparr>bubbles := (bubbles B)[i := b]\<rparr>, e')
            \<and> active b \<and> age b = 0 \<and> v4y (data b) = - 0.1 \<and> v4z (data b) = 0
            \<and> v4w (data b) = h / 360
            \<and> v4z (velocity b) = 0.03 + (vel / 127) * 0.12)
       \<and> spawnFlare x y sz life (S, e) = (S, e)"
proof
  from assms(1) have ne: "bubbles B \<noteq> []" and pos: "0 < MAX_BUBBLES"
    by (auto simp: bubbles_wf_def MAX_BUBBLES_def)
  from assms(2) have "find_inactive (bubbles B) = None" by (simp add: find_inactive_None)
  with ne have first: "find_inactive_or_first (bubbles B) = Inr 0"
    by (simp add: find_inactive_or_first_def)
  define e4 where "e4 = snd (Math_random (snd (Math_random (snd (Math_random (snd (Math_random e)))))))"
  define b where "b = (bubbles B ! 0)
      \<lparr>active := True, age := 0,
       data := vec4 (fst (Math_random (snd (Math_random e)))) (- 0.1) 0 (h / 360),
       velocity := vec4
         ((fst (Math_random (snd (Math_random (snd (Math_random e))))) - 0.5) * 0.05)
         (0.1 + fst (Math_random (snd (Math_random (snd (Math_random (snd (Math_random e))))))) * 0.08)
         (0.03 + (vel / 127) * 0.12)
         (3.0 + fst (Math_random e) * 3.0)\<rparr>"
  have "onBubbleNoteOn e B vel h = Inr (B\<lparr>bubbles := (bubbles B)[0 := b]\<rparr>, e4)"
    by (simp add: onBubbleNoteOn_def first Let_def case_prod_beta b_def e4_def)
  moreover have "active b \<and> age b = 0 \<and> v4y (data b) = - 0.1 \<and> v4z (data b) = 0
      \<and> v4w (data b) = h / 360 \<and> v4z (velocity b) = 0.03 + (vel / 127) * 0.12"
    by (simp add: b_def)
  ultimately show "\<exists>i<MAX_BUBBLES. \<exists>b e'.
            onBubbleNoteOn e B vel h = Inr (B\<lparr>bubbles := (bubbles B)[i := b]\<rparr>, e')
            \<and> active b \<and> age b = 0 \<and> v4y (data b) = - 0.1 \<and> v4z (data b) = 0
            \<and> v4w (data b) = h / 360
            \<and> v4z (velocity b) = 0.03 + (vel / 127) * 0.12"
    using pos by blast
next
  from assms(3) have "find_inactive (flares S) = None" by (simp add: find_inactive_None)
  then show "spawnFlare x y sz life (S, e) = (S, e)" by (simp add: spawnFlare_def)
qed

theorem spawn_on_full_pool_witness:
  "(\<exists>i<MAX_BUBBLES. \<exists>b e'.
      onBubbleNoteOn env0 full_bubbles_example 100 0
        = Inr (full_bubbles_example\<lparr>bubbles := (bubbles full_bubbles_example)[i := b]\<rparr>, e')
      \<and> active b \<and> age b = 0 \<and> v4y (data b) = - 0.1 \<and> v4z (data b) = 0
      \<and> v4w (data b) = 0 / 360
      \<and> v4z (velocity b) = 0.03 + (100 / 127) * 0.12)
   \<and> spawnFlare 0.5 0 0.3 2 (full_flares_example, env0) = (full_flares_example, env0)"
proof -
  have wf: "bubbles_wf full_bubbles_example"
    by (simp add: bubbles_wf_def full_bubbles_example_def createBubblesLayer_def)
  have fb: "\<forall>b\<in>set (bubbles full_bubbles_example). active b"
    using full_bubbles_example_full by (simp add: find_inactive_None)
  have ff: "\<forall>f\<in>set (flares full_flares_example). active f"
    using full_flares_example_full by (simp add: find_inactive_None)
  from spawn_on_full_pool[OF wf fb ff, of env0 100 0 "0.5" 0 "0.3" 2] show ?thesis .
qed


text \<open>
  Claim C5 as stated fails for the flare pool: a spawn that finds all 48 flares active
  leaves the layer as it was, so no slot holds the new flare.
\<close>

theorem full_flare_pool_drops_spawn:
  "find_inactive (flares full_flares_example) = None
   \<and> spawnFlare 0.5 0 0.3 2 (full_flares_example, env0) = (full_flares_example, env0)"
  by (simp add: spawnFlare_def full_flares_example_full)

section \<open>Bursts on note-off\<close>

lemma active_count_le: "active_count xs \<le> length xs"
  by (simp add: active_count_def)

lemma active_count_update:
  "i < length xs \<Longrightarrow> \<not> active (xs ! i) \<Longrightarrow> active p \<Longrightarrow>
     active_count (xs[i := p]) = Suc (active_count xs)"
proof (induction xs arbitrary: i)
  case Nil
  then show ?case by simp
next
  case (Cons a xs)
  then show ?case
    by (cases i) (simp_all add: active_count_def)
qed

lemma active_count_full: "find_inactive xs = None \<Longrightarrow> active_count xs = length xs"
  by (simp add: find_inactive_None active_count_def)

lemma active_count_free: "find_inactive xs = Some i \<Longrightarrow> active_count xs < length xs"
  using find_inactive_Some[of xs i] length_filter_less[of "xs ! i" xs active]
  by (auto simp: active_count_def)


lemma addHotspot_count:
  "length (particles (fst (addHotspot x v s))) = length (particles (fst s))
   \<and> active_count (particles (fst (addHotspot x v s)))
       = min (length (particles (fst s))) (Suc (active_count (particles (fst s))))"
proof (cases s)
  case (Pair L e)
  show ?thesis
  proof (cases "find_inactive (particles L)")
    case None
    with Pair active_count_full[OF None] show ?thesis by (simp add: addHotspot_def)
  next
    case (Some i)
    from find_inactive_Some[OF Some] active_count_free[OF Some] Pair Some show ?thesis
      by (simp add: addHotspot_def Let_def case_prod_beta active_count_update)
  qed
qed






text \<open>
  With a rounding under which the quotient comes out below 2, the hold of 635 ms at
  velocity 0 gives 4 sparks; the exact quotient is 2 and would give 5.
\<close>

lemma plasmaNoteOffCount_rounded_down:
  assumes "fl (0 + fl (635 / 25)) = v" and "v \<le> 127"
    and "1 \<le> fl (fl (v / 127) * 10)" and "fl (fl (v / 127) * 10) < 2"
  shows "plasmaNoteOffCount fl 0 635 = 4"
proof -
  from assms(1,2) have "plasmaFlareVel fl 0 635 = v" by (simp add: plasmaFlareVel_def)
  moreover from assms(3,4) have "\<lfloor>fl (fl (v / 127) * 10)\<rfloor> = 1" by (simp add: floor_eq_iff)
  ultimately show ?thesis by (simp add: plasmaNoteOffCount_def)
qed

lemma oldest_ripple_index_less:
  assumes "rs \<noteq> []"
  shows "oldest_ripple_index rs < length rs"
proof -
  have "a < length rs \<Longrightarrow> set js \<subseteq> {..<length rs} \<Longrightarrow>
        fold (\<lambda>i oldest. if birth (rs ! i) < birth (rs ! oldest) then i else oldest) js a
          < length rs" for js a
    by (induction js arbitrary: a) auto
  moreover have "set [1..<length rs] \<subseteq> {..<length rs}" by auto
  moreover have "0 < length rs" using assms by simp
  ultimately show ?thesis
    unfolding oldest_ripple_index_def by blast
qed

lemma addWaveRipple_length:
  "length (ripples (fst (addWaveRipple e W x v)))
     = (if length (ripples W) \<ge> MAX_RIPPLES then length (ripples W) else Suc (length (ripples W)))"
  by (auto simp: addWaveRipple_def Let_def case_prod_beta MAX_RIPPLES_def)

lemma addWaterRipple_length:
  "length (ripples (fst (addWaterRipple e W x v h)))
     = (if length (ripples W) \<ge> MAX_RIPPLES then length (ripples W) else Suc (length (ripples W)))"
proof (cases "length (ripples W) \<ge> MAX_RIPPLES")
  case True
  then have "ripples W \<noteq> []" by (auto simp: MAX_RIPPLES_def)
  from oldest_ripple_index_less[OF this] True show ?thesis
    by (simp add: addWaterRipple_def Let_def case_prod_beta splice1_def)
next
  case False
  then show ?thesis by (simp add: addWaterRipple_def Let_def case_prod_beta)
qed




section \<open>Runs keep the pools well formed\<close>

lemma run_invariant:
  assumes "I s" and "\<forall>ev\<in>set evs. ok ev"
    and "\<And>ev t. ok ev \<Longrightarrow> I t \<Longrightarrow> \<exists>t'. step ev t = Inr t' \<and> I t'"
  shows "\<exists>t. run step evs s = Inr t \<and> I t"
  using assms(1,2)
proof (induction evs arbitrary: s)
  case Nil
  then show ?case by simp
next
  case (Cons ev evs)
  from Cons.prems assms(3)[of ev s] obtain t where t: "step ev s = Inr t" "I t" by auto
  from Cons.IH[OF t(2)] Cons.prems(2) obtain t' where "run step evs t = Inr t'" "I t'" by auto
  with t show ?case by simp
qed

lemma run_wf:
  assumes "I (fst s)"
    and "\<And>ev t. I (fst t) \<Longrightarrow> \<exists>t'. step ev t = Inr t' \<and> I (fst t')"
  shows "\<exists>t. run step evs s = Inr t \<and> I (fst t)"
  using run_invariant[of "\<lambda>t. I (fst t)" s evs "\<lambda>_. True" step] assms by blast

lemma bubbles_step_wf:
  assumes "bubbles_wf (fst s)"
  shows "\<exists>s'. bubbles_step ev s = Inr s' \<and> bubbles_wf (fst s')"
proof (cases s)
  case (Pair L e)
  with assms have wf: "bubbles_wf L" by simp
  show ?thesis
  proof (cases ev)
    case (NoteOn a)
    obtain vel h where a: "a = (vel, h)" by (cases a)
    from wf have "bubbles L \<noteq> []" by (auto simp: bubbles_wf_def MAX_BUBBLES_def)
    from find_inactive_or_first_Inr[OF this] obtain i where
      "find_inactive_or_first (bubbles L) = Inr i" by blast
    with wf Pair NoteOn a show ?thesis
      by (simp add: bubbles_step_def onBubbleNoteOn_def Let_def case_prod_beta bubbles_wf_def)
  next
    case (NoteOff a)
    with wf Pair show ?thesis
      by (simp add: bubbles_step_def onBubbleNoteOff_def case_prod_beta)
  next
    case (Update dt)
    from updateBubbles_slots[OF wf, of dt] obtain L' where
      "updateBubbles L dt = Inr L'" "bubbles_wf L'" by blast
    with Pair Update show ?thesis by (simp add: bubbles_step_def)
  qed
qed

lemma addHotspot_wf: "plasma_wf (fst s) \<Longrightarrow> plasma_wf (fst (addHotspot x v s))"
  by (cases s) (auto simp: addHotspot_def plasma_wf_def Let_def case_prod_beta split: option.splits)

lemma addSpark_wf: "plasma_wf (fst s) \<Longrightarrow> plasma_wf (fst (addSpark x v s))"
  by (cases s) (auto simp: addSpark_def plasma_wf_def Let_def case_prod_beta split: option.splits)

lemma funpow_invariant: "I s \<Longrightarrow> (\<And>t. I t \<Longrightarrow> I (f t)) \<Longrightarrow> I ((f ^^ n) s)"
  by (induction n) simp_all

lemma plasma_step_wf:
  assumes "plasma_wf (fst s)"
  shows "\<exists>s'. plasma_step fl ev s = Inr s' \<and> plasma_wf (fst s')"
proof (cases s)
  case (Pair L e)
  with assms have wf: "plasma_wf (fst (L, e))" by simp
  show ?thesis
  proof (cases ev)
    case (NoteOn a)
    obtain x vel where a: "a = (x, vel)" by (cases a)
    have "plasma_wf (fst ((addHotspot x vel ^^ nat (plasmaNoteOnCount vel)) (L, e)))"
      by (rule funpow_invariant[of "\<lambda>t. plasma_wf (fst t)", OF wf]) (rule addHotspot_wf)
    with Pair NoteOn a show ?thesis by (simp add: plasma_step_def onPlasmaNoteOn_def)
  next
    case (NoteOff a)
    obtain x vel held where a: "a = (x, vel, held)" by (cases a)
    have "plasma_wf (fst ((addSpark x (plasmaFlareVel fl vel held)
        ^^ nat (plasmaNoteOffCount fl vel held)) (L, e)))"
      by (rule funpow_invariant[of "\<lambda>t. plasma_wf (fst t)", OF wf]) (rule addSpark_wf)
    with Pair NoteOff a show ?thesis by (simp add: plasma_step_def onPlasmaNoteOff_def)
  next
    case (Update dt)
    from wf have "plasma_wf L" by simp
    from updatePlasma_slots[OF this, of e dt] obtain L' e' where
      "updatePlasma e L dt = Inr (L', e')" "plasma_wf L'" by blast
    with Pair Update show ?thesis by (simp add: plasma_step_def)
  qed
qed

lemma trees_step_wf:
  assumes "trees_wf (fst s)"
  shows "\<exists>s'. trees_step ev s = Inr s' \<and> trees_wf (fst s')"
proof (cases s)
  case (Pair L e)
  with assms have wf: "trees_wf L" by simp
  show ?thesis
  proof (cases ev)
    case (NoteOn a)
    obtain n vel c where a: "a = (n, vel, c)" by (cases a)
    from wf have "seeds L \<noteq> []" by (auto simp: trees_wf_def MAX_SEEDS_def)
    from find_inactive_or_first_Inr[OF this] obtain i where
      "find_inactive_or_first (seeds L) = Inr i" by blast
    with wf Pair NoteOn a show ?thesis
      by (simp add: trees_step_def onTreeNoteOn_def Let_def case_prod_beta trees_wf_def)
  next
    case (NoteOff a)
    with wf Pair show ?thesis
      by (simp add: trees_step_def onTreeNoteOff_def case_prod_beta)
  next
    case (Update dt)
    from updateTrees_slots[OF wf, of e dt] obtain L' e' where
      "updateTrees e L dt = Inr (L', e')" "trees_wf L'" by blast
    with Pair Update show ?thesis by (simp add: trees_step_def)
  qed
qed

lemma spawnWave_wf: "solar_wf L \<Longrightarrow> solar_wf (spawnWave orig c s sp wd dc L)"
  using spawnWave_shape[of orig c s sp wd dc L] by (auto simp: solar_wf_def)

lemma spawnFlare_wf: "solar_wf L \<Longrightarrow> solar_wf (fst (spawnFlare x y sz l (L, e)))"
  using spawnFlare_shape[of x y sz l L e] by (auto simp: solar_wf_def)

lemma onSolarNoteOn_wf:
  assumes "solar_wf L"
  shows "solar_wf (fst (onSolarNoteOn setHSL e L n v))"
proof -
  define vel where "vel = clamp v 0 127 / 127"
  define L1 where "L1 = fst (spawnFlare (fst (noteToDiskXY n)) (snd (noteToDiskXY n))
      (0.08 + 0.22 * vel) (1.2 + 1.4 * vel) (L, e))"
  define L2 where "L2 = spawnWave \<lparr>v2x = fst (noteToDiskXY n), v2y = snd (noteToDiskXY n)\<rparr>
      (noteToColor setHSL n) (0.45 + 0.45 * vel) (0.45 + 0.35 * vel)
      (0.02 + 0.05 * vel) (0.55 + 0.35 * vel) L1"
  have "solar_wf L2"
    unfolding L2_def L1_def by (intro spawnWave_wf spawnFlare_wf assms)
  then show ?thesis
    by (simp add: onSolarNoteOn_def Let_def case_prod_beta solar_wf_def
        L2_def L1_def vel_def)
qed

lemma onSolarNoteOff_wf:
  assumes "solar_wf L"
  shows "solar_wf (fst (onSolarNoteOff e L n))"
proof (cases "map_of (holds (state L)) n")
  case None
  with assms show ?thesis by (simp add: onSolarNoteOff_def solar_wf_def)
next
  case (Some hold)
  define boost where "boost = clamp ((fst (performance_now e) - startMs hold) / 1000 / 2.5) 0 1"
  have "solar_wf (spawnWave (origin hold) (hold_color hold) (0.5 + 0.8 * boost)
      (0.55 + 0.5 * boost) (0.03 + 0.06 * boost) (0.6 + 0.4 * boost) L)"
    by (intro spawnWave_wf assms)
  with Some show ?thesis
    by (simp add: onSolarNoteOff_def Let_def case_prod_beta solar_wf_def boost_def)
qed

lemma solar_step_wf:
  assumes "solar_wf (fst s)"
  shows "\<exists>s'. solar_step setHSL ev s = Inr s' \<and> solar_wf (fst s')"
proof (cases s)
  case (Pair L e)
  with assms have wf: "solar_wf L" by simp
  show ?thesis
  proof (cases ev)
    case (NoteOn a)
    obtain n v where a: "a = (n, v)" by (cases a)
    from onSolarNoteOn_wf[OF wf, of setHSL e n v] Pair NoteOn a show ?thesis
      by (simp add: solar_step_def)
  next
    case (NoteOff n)
    from onSolarNoteOff_wf[OF wf, of e n] Pair NoteOff show ?thesis
      by (simp add: solar_step_def)
  next
    case (Update dt)
    from updateSolar_ok[OF wf, of e dt] obtain L' e' where
      "updateSolar e L dt = Inr (L', e')" "solar_wf L'" by blast
    with Pair Update show ?thesis by (simp add: solar_step_def)
  qed
qed

lemma updateRipples_loop:
  fixes L :: WaveLayer
  assumes "n \<le> length (ripples L)" and "n \<le> length (u_ripples L)"
  shows "\<exists>L'. for_upto n (updateRipples_body rec) L = Inr L'
           \<and> ripples L' = ripples L \<and> length (u_ripples L') = length (u_ripples L)
           \<and> (\<forall>i<n. u_ripples L' ! i = rec (ripples L ! i))"
proof -
  define P where "P k t \<longleftrightarrow> ripples t = ripples L \<and> length (u_ripples t) = length (u_ripples L)
      \<and> (\<forall>i<k. u_ripples t ! i = rec (ripples L ! i))" for k and t :: WaveLayer
  have P0: "P 0 L" by (simp add: P_def)
  have step: "\<exists>t'. updateRipples_body rec i t = Inr t' \<and> P (Suc i) t'" if "i < n" "P i t" for i t
    using that assms
    by (auto simp: updateRipples_body_def P_def nth_list_update less_Suc_eq)
  from for_upto_rule[of P L n "updateRipples_body rec", OF P0 step]
  show ?thesis unfolding P_def by blast
qed

lemma updateWaves_wf:
  assumes "ripples_wf L"
  shows "\<exists>L' e'. updateWaves e L dt = Inr (L', e') \<and> ripples_wf L'"
proof -
  define now where "now = fst (performance_now e) / 1000"
  define L3 where "L3 = L\<lparr>u_time := now,
      ripples := filter (\<lambda>r. now - birth r < 8.0) (ripples L),
      u_ripple_count := min (length (filter (\<lambda>r. now - birth r < 8.0) (ripples L))) 32\<rparr>"
  have len: "length (ripples L3) \<le> MAX_RIPPLES" "length (u_ripples L3) = 32"
    using assms le_trans[OF length_filter_le, of "ripples L" MAX_RIPPLES]
    by (simp_all add: L3_def ripples_wf_def)
  have n: "min (length (ripples L3)) 32 \<le> length (ripples L3)"
    "min (length (ripples L3)) 32 \<le> length (u_ripples L3)"
    using len by simp_all
  from updateRipples_loop[OF n, of "\<lambda>r. vec4 (ripple_x r) (ripple_y r) (strength r) (birth r)"]
  obtain L' where
    "for_upto (min (length (ripples L3)) 32)
       (updateRipples_body (\<lambda>r. vec4 (ripple_x r) (ripple_y r) (strength r) (birth r))) L3 = Inr L'"
    "ripples L' = ripples L3" "length (u_ripples L') = length (u_ripples L3)"
    by blast
  with len show ?thesis
    by (simp add: updateWaves_def Let_def case_prod_beta L3_def now_def ripples_wf_def)
qed

lemma updateWater_wf:
  assumes "ripples_wf L"
  shows "\<exists>L' e'. updateWater e L dt = Inr (L', e') \<and> ripples_wf L'"
proof -
  define now where "now = fst (performance_now e) / 1000"
  define L3 where "L3 = L\<lparr>u_time := now,
      ripples := filter (\<lambda>r. now - birth r < 7.0) (ripples L),
      u_ripple_count := min (length (filter (\<lambda>r. now - birth r < 7.0) (ripples L))) 32\<rparr>"
  have len: "length (ripples L3) \<le> MAX_RIPPLES" "length (u_ripples L3) = 32"
    using assms le_trans[OF length_filter_le, of "ripples L" MAX_RIPPLES]
    by (simp_all add: L3_def ripples_wf_def)
  have n: "min (length (ripples L3)) 32 \<le> length (ripples L3)"
    "min (length (ripples L3)) 32 \<le> length (u_ripples L3)"
    using len by simp_all
  from updateRipples_loop[OF n, of "\<lambda>r. vec4 (ripple_x r) (hue r) (strength r) (birth r)"]
  obtain L' where
    "for_upto (min (length (ripples L3)) 32)
       (updateRipples_body (\<lambda>r. vec4 (ripple_x r) (hue r) (strength r) (birth r))) L3 = Inr L'"
    "ripples L' = ripples L3" "length (u_ripples L') = length (u_ripples L3)"
    by blast
  with len show ?thesis
    by (simp add: updateWater_def Let_def case_prod_beta L3_def now_def ripples_wf_def)
qed

lemma addWaveRipple_wf: "ripples_wf L \<Longrightarrow> ripples_wf (fst (addWaveRipple e L x v))"
  using addWaveRipple_length[of e L x v]
  by (auto simp: ripples_wf_def) (simp add: addWaveRipple_def Let_def case_prod_beta)

lemma addWaterRipple_wf: "ripples_wf L \<Longrightarrow> ripples_wf (fst (addWaterRipple e L x v h))"
  using addWaterRipple_length[of e L x v h]
  by (auto simp: ripples_wf_def) (simp add: addWaterRipple_def Let_def case_prod_beta)

lemma waves_step_wf:
  assumes "ripples_wf (fst s)"
  shows "\<exists>s'. waves_step ev s = Inr s' \<and> ripples_wf (fst s')"
proof (cases s)
  case (Pair L e)
  with assms have wf: "ripples_wf L" by simp
  show ?thesis
  proof (cases ev)
    case (NoteOn a)
    obtain x v where a: "a = (x, v)" by (cases a)
    from addWaveRipple_wf[OF wf, of e x v] Pair NoteOn a show ?thesis
      by (simp add: waves_step_def onWaveNoteOn_def)
  next
    case (NoteOff a)
    obtain x v held where a: "a = (x, v, held)" by (cases a)
    from addWaveRipple_wf[OF wf, of e x "waveNoteOffStrength v held * 1.5"] Pair NoteOff a
    show ?thesis by (simp add: waves_step_def onWaveNoteOff_def)
  next
    case (Update dt)
    from updateWaves_wf[OF wf, of e dt] Pair Update show ?thesis
      by (auto simp: waves_step_def)
  qed
qed

lemma water_step_wf:
  assumes "ripples_wf (fst s)"
  shows "\<exists>s'. water_step ev s = Inr s' \<and> ripples_wf (fst s')"
proof (cases s)
  case (Pair L e)
  with assms have wf: "ripples_wf L" by simp
  show ?thesis
  proof (cases ev)
    case (NoteOn a)
    obtain x v h where a: "a = (x, v, h)" by (cases a)
    from addWaterRipple_wf[OF wf, of e x v h] Pair NoteOn a show ?thesis
      by (simp add: water_step_def onWaterNoteOn_def)
  next
    case (NoteOff a)
    obtain x v held where a: "a = (x, v, held)" by (cases a)
    from addWaterRipple_wf[OF wf, of "snd (Math_random e)" x "waterNoteOffStrength v held * 1.2"
        "(fst (Math_random e) * 360) / 360"] Pair NoteOff a
    show ?thesis by (simp add: water_step_def onWaterNoteOff_def Let_def case_prod_beta)
  next
    case (Update dt)
    from updateWater_wf[OF wf, of e dt] Pair Update show ?thesis
      by (auto simp: water_step_def)
  qed
qed


text \<open>
  Claim C1. Whatever note-on, note-off and update calls a host makes on a freshly created
  layer, and whatever the host's clock and random source return (and however the spark
  count of the plasma layer is rounded), no call throws, the
  pools of bubbles, plasma particles, tree seeds, solar flares and solar waves keep the
  length the layer was created with (100, 100, 20, 48 and 96), so the active slots never
  outnumber the capacity, and the ripple arrays of the wave and water layers never hold
  more than 30 ripples. The statement is about every run, hence about every prefix of
  a run.
\<close>

theorem pools_stay_within_capacity:
  "(\<exists>L e'. run bubbles_step evs1 (createBubblesLayer, e) = Inr (L, e')
      \<and> length (bubbles L) = MAX_BUBBLES \<and> active_count (bubbles L) \<le> MAX_BUBBLES)
   \<and> (\<exists>L e'. run (plasma_step fl) evs2 (createPlasmaLayer, e) = Inr (L, e')
      \<and> length (particles L) = MAX_PARTICLES \<and> active_count (particles L) \<le> MAX_PARTICLES)
   \<and> (\<exists>L e'. run trees_step evs3 (createTreesLayer, e) = Inr (L, e')
      \<and> length (seeds L) = MAX_SEEDS \<and> active_count (seeds L) \<le> MAX_SEEDS)
   \<and> (\<exists>L e'. run (solar_step setHSL) evs4 (createSolarLayer e) = Inr (L, e')
      \<and> length (flares L) = MAX_FLARES \<and> active_count (flares L) \<le> MAX_FLARES
      \<and> length (waves L) = MAX_WAVES \<and> active_count (waves L) \<le> MAX_WAVES)
   \<and> (\<exists>L e'. run waves_step evs5 (createWavesLayer, e) = Inr (L, e')
      \<and> length (ripples L) \<le> MAX_RIPPLES)
   \<and> (\<exists>L e'. run water_step evs6 (createWaterLayer, e) = Inr (L, e')
      \<and> length (ripples L) \<le> MAX_RIPPLES)"
proof (intro conjI)
  have "\<exists>t. run bubbles_step evs1 (createBubblesLayer, e) = Inr t \<and> bubbles_wf (fst t)"
    by (rule run_wf[OF _ bubbles_step_wf]) (simp_all add: created_wf)
  then obtain L e' where "run bubbles_step evs1 (createBubblesLayer, e) = Inr (L, e')"
    "bubbles_wf L" by auto
  then show "\<exists>L e'. run bubbles_step evs1 (createBubblesLayer, e) = Inr (L, e')
      \<and> length (bubbles L) = MAX_BUBBLES \<and> active_count (bubbles L) \<le> MAX_BUBBLES"
    using active_count_le[of "bubbles L"] by (auto simp: bubbles_wf_def)
next
  have "\<exists>t. run (plasma_step fl) evs2 (createPlasmaLayer, e) = Inr t \<and> plasma_wf (fst t)"
    by (rule run_wf[OF _ plasma_step_wf]) (simp_all add: created_wf)
  then obtain L e' where "run (plasma_step fl) evs2 (createPlasmaLayer, e) = Inr (L, e')"
    "plasma_wf L" by auto
  then show "\<exists>L e'. run (plasma_step fl) evs2 (createPlasmaLayer, e) = Inr (L, e')
      \<and> length (particles L) = MAX_PARTICLES \<and> active_count (particles L) \<le> MAX_PARTICLES"
    using active_count_le[of "particles L"] by (auto simp: plasma_wf_def)
next
  have "\<exists>t. run trees_step evs3 (createTreesLayer, e) = Inr t \<and> trees_wf (fst t)"
    by (rule run_wf[OF _ trees_step_wf]) (simp_all add: created_wf)
  then obtain L e' where "run trees_step evs3 (createTreesLayer, e) = Inr (L, e')"
    "trees_wf L" by auto
  then show "\<exists>L e'. run trees_step evs3 (createTreesLayer, e) = Inr (L, e')
      \<and> length (seeds L) = MAX_SEEDS \<and> active_count (seeds L) \<le> MAX_SEEDS"
    using active_count_le[of "seeds L"] by (auto simp: trees_wf_def)
next
  have "\<exists>t. run (solar_step setHSL) evs4 (createSolarLayer e) = Inr t \<and> solar_wf (fst t)"
    by (rule run_wf[OF _ solar_step_wf]) (simp_all add: created_wf)
  then obtain L e' where "run (solar_step setHSL) evs4 (createSolarLayer e) = Inr (L, e')"
    "solar_wf L" by auto
  then show "\<exists>L e'. run (solar_step setHSL) evs4 (createSolarLayer e) = Inr (L, e')
      \<and> length (flares L) = MAX_FLARES \<and> active_count (flares L) \<le> MAX_FLARES
      \<and> length (waves L) = MAX_WAVES \<and> active_count (waves L) \<le> MAX_WAVES"
    using active_count_le[of "flares L"] active_count_le[of "waves L"]
    by (auto simp: solar_wf_def)
next
  have "\<exists>t. run waves_step evs5 (createWavesLayer, e) = Inr t \<and> ripples_wf (fst t)"
    by (rule run_wf[OF _ waves_step_wf]) (simp_all add: created_wf)
  then show "\<exists>L e'. run waves_step evs5 (createWavesLayer, e) = Inr (L, e')
      \<and> length (ripples L) \<le> MAX_RIPPLES"
    by (auto simp: ripples_wf_def)
next
  have "\<exists>t. run water_step evs6 (createWaterLayer, e) = Inr t \<and> ripples_wf (fst t)"
    by (rule run_wf[OF _ water_step_wf]) (simp_all add: created_wf)
  then show "\<exists>L e'. run water_step evs6 (createWaterLayer, e) = Inr (L, e')
      \<and> length (ripples L) \<le> MAX_RIPPLES"
    by (auto simp: ripples_wf_def)
qed

section \<open>The feature extractor stays in range\<close>

lemma clamp_range: "a \<le> b \<Longrightarrow> a \<le> clamp v a b \<and> clamp v a b \<le> b"
  by (simp add: clamp_def)

lemma lerp_range:
  assumes "lo \<le> a" "a \<le> hi" "lo \<le> b" "b \<le> hi" "0 \<le> t" "t \<le> 1"
  shows "lo \<le> lerp a b t \<and> lerp a b t \<le> hi"
proof -
  have "(1 - t) * lo + t * lo \<le> (1 - t) * a + t * b"
    using assms by (intro add_mono mult_left_mono) simp_all
  moreover have "(1 - t) * a + t * b \<le> (1 - t) * hi + t * hi"
    using assms by (intro add_mono mult_left_mono) simp_all
  moreover have "(1 - t) * lo + t * lo = lo" "(1 - t) * hi + t * hi = hi"
    by (simp_all add: algebra_simps)
  ultimately show ?thesis by (simp add: lerp_def)
qed

lemma created_bounded: "solar_bounded (fst (createSolarLayer e))"
  by (simp add: solar_bounded_def createSolarLayer_def Let_def case_prod_beta)

lemma updateSolar_params_range:
  "0 \<le> v4x (u_params (updateSolar_params dt L)) \<and> v4x (u_params (updateSolar_params dt L)) \<le> 1
   \<and> 0 \<le> v4y (u_params (updateSolar_params dt L)) \<and> v4y (u_params (updateSolar_params dt L)) \<le> 1
   \<and> 0 \<le> v4z (u_params (updateSolar_params dt L)) \<and> v4z (u_params (updateSolar_params dt L)) \<le> 1
   \<and> 0 \<le> v4w (u_params (updateSolar_params dt L)) \<and> v4w (u_params (updateSolar_params dt L)) \<le> 1"
  using clamp_range[of 0 1] by (simp add: updateSolar_params_def Let_def)

lemma spawnFlare_keeps [simp]:
  "state (fst (spawnFlare x y sz l p)) = state (fst p)"
  "u_params (fst (spawnFlare x y sz l p)) = u_params (fst p)"
  using spawnFlare_shape[of x y sz l "fst p" "snd p"] by auto

lemma spawnWave_keeps [simp]:
  "u_params (spawnWave orig c s sp wd dc L) = u_params L"
  using spawnWave_shape[of orig c s sp wd dc L] by auto

lemma onSolarNoteOn_stats:
  "\<exists>rateBoost. 0 \<le> rateBoost \<and> rateBoost \<le> 2
     \<and> emaEnergy (state (fst (onSolarNoteOn setHSL e L n v)))
         = lerp (emaEnergy (state L)) (clamp v 0 127 / 127 * (1 + rateBoost)) 0.35
     \<and> emaPitch (state (fst (onSolarNoteOn setHSL e L n v)))
         = emaPitch (state L) + 0.25 * (real n - emaPitch (state L))
     \<and> u_params (fst (onSolarNoteOn setHSL e L n v)) = u_params L"
proof -
  define vel where "vel = clamp v 0 127 / 127"
  define e3 where "e3 = snd (performance_now (snd (performance_now
      (snd (spawnFlare (fst (noteToDiskXY n)) (snd (noteToDiskXY n))
         (0.08 + 0.22 * vel) (1.2 + 1.4 * vel) (L, e))))))"
  define rb where "rb = clamp (300 / max 1 (fst (performance_now e3) - lastNoteTs (state L))) 0 2"
  have "0 \<le> rb \<and> rb \<le> 2" unfolding rb_def by (rule clamp_range) simp
  moreover have "emaEnergy (state (fst (onSolarNoteOn setHSL e L n v)))
         = lerp (emaEnergy (state L)) (clamp v 0 127 / 127 * (1 + rb)) 0.35
     \<and> emaPitch (state (fst (onSolarNoteOn setHSL e L n v)))
         = emaPitch (state L) + 0.25 * (real n - emaPitch (state L))
     \<and> u_params (fst (onSolarNoteOn setHSL e L n v)) = u_params L"
    by (simp add: onSolarNoteOn_def Let_def case_prod_beta rb_def e3_def vel_def)
  ultimately show ?thesis by blast
qed

lemma pitch_step_range:
  "0 \<le> (p::real) \<Longrightarrow> p \<le> 127 \<Longrightarrow> n \<le> 127 \<Longrightarrow>
     0 \<le> p + 0.25 * (real n - p) \<and> p + 0.25 * (real n - p) \<le> 127"
  by (simp add: field_simps)

lemma onSolarNoteOn_bounded:
  assumes "solar_bounded L" and "n \<le> 127"
  shows "solar_bounded (fst (onSolarNoteOn setHSL e L n v))"
proof -
  from onSolarNoteOn_stats[of setHSL e L n v] obtain rb where
    rb: "0 \<le> rb" "rb \<le> 2" and
    en: "emaEnergy (state (fst (onSolarNoteOn setHSL e L n v)))
         = lerp (emaEnergy (state L)) (clamp v 0 127 / 127 * (1 + rb)) 0.35" and
    pi: "emaPitch (state (fst (onSolarNoteOn setHSL e L n v)))
         = emaPitch (state L) + 0.25 * (real n - emaPitch (state L))" and
    up: "u_params (fst (onSolarNoteOn setHSL e L n v)) = u_params L"
    by blast
  define vel where "vel = clamp v 0 127 / 127"
  have vel: "0 \<le> vel" "vel \<le> 1"
    using clamp_range[of 0 127 v] by (simp_all add: vel_def)
  have inst: "0 \<le> vel * (1 + rb)" "vel * (1 + rb) \<le> 3"
  proof -
    show "0 \<le> vel * (1 + rb)" using vel rb by simp
    have "vel * (1 + rb) \<le> 1 * 3"
      using vel rb by (intro mult_mono) simp_all
    then show "vel * (1 + rb) \<le> 3" by simp
  qed
  from assms(1) have e0: "0 \<le> emaEnergy (state L)" "emaEnergy (state L) \<le> 3"
    and p0: "0 \<le> emaPitch (state L)" "emaPitch (state L) \<le> 127"
    by (simp_all add: solar_bounded_def)
  from lerp_range[OF e0 inst, of "0.35"] have en': "0 \<le> lerp (emaEnergy (state L)) (vel * (1 + rb)) 0.35"
    "lerp (emaEnergy (state L)) (vel * (1 + rb)) 0.35 \<le> 3" by simp_all
  from pitch_step_range[OF p0 assms(2)]
  have pi': "0 \<le> emaPitch (state L) + 0.25 * (real n - emaPitch (state L))"
    "emaPitch (state L) + 0.25 * (real n - emaPitch (state L)) \<le> 127"
    by simp_all
  from assms(1) en' pi' show ?thesis
    unfolding solar_bounded_def en pi up vel_def by simp
qed

lemma onSolarNoteOff_bounded:
  assumes "solar_bounded L"
  shows "solar_bounded (fst (onSolarNoteOff e L n))"
proof (cases "map_of (holds (state L)) n")
  case None
  with assms show ?thesis by (simp add: onSolarNoteOff_def solar_bounded_def)
next
  case (Some hold)
  define boost where "boost = clamp ((fst (performance_now e) - startMs hold) / 1000 / 2.5) 0 1"
  from spawnWave_shape[of "origin hold" "hold_color hold" "0.5 + 0.8 * boost"
      "0.55 + 0.5 * boost" "0.03 + 0.06 * boost" "0.6 + 0.4 * boost" L]
  obtain ws where "spawnWave (origin hold) (hold_color hold) (0.5 + 0.8 * boost)
      (0.55 + 0.5 * boost) (0.03 + 0.06 * boost) (0.6 + 0.4 * boost) L = L\<lparr>waves := ws\<rparr>"
    by blast
  with Some assms show ?thesis
    by (simp add: onSolarNoteOff_def Let_def case_prod_beta solar_bounded_def boost_def)
qed

lemma solar_step_bounded:
  assumes "midi_note ev" and "solar_wf (fst s) \<and> solar_bounded (fst s)"
  shows "\<exists>s'. solar_step setHSL ev s = Inr s' \<and> solar_wf (fst s') \<and> solar_bounded (fst s')"
proof (cases s)
  case (Pair L e)
  with assms have wf: "solar_wf L" and bd: "solar_bounded L" by simp_all
  show ?thesis
  proof (cases ev)
    case (NoteOn a)
    obtain n v where a: "a = (n, v)" by (cases a)
    with assms(1) NoteOn have "n \<le> 127" by (simp add: midi_note_def)
    from onSolarNoteOn_wf[OF wf, of setHSL e n v] onSolarNoteOn_bounded[OF bd this, of setHSL e v]
      Pair NoteOn a show ?thesis
      by (simp add: solar_step_def)
  next
    case (NoteOff n)
    from onSolarNoteOff_wf[OF wf, of e n] onSolarNoteOff_bounded[OF bd, of e n] Pair NoteOff
    show ?thesis by (simp add: solar_step_def)
  next
    case (Update dt)
    from updateSolar_ok[OF wf, of e dt] obtain L' e' hs rot where
      u: "updateSolar e L dt = Inr (L', e')" "solar_wf L'"
        "state L' = (state L)\<lparr>holds := hs, rotSpeed := rot\<rparr>"
        "u_params L' = u_params (updateSolar_params (min (dt / 1000) 0.05) L)"
      by blast
    from bd u(3,4) updateSolar_params_range[of "min (dt / 1000) 0.05" L]
    have "solar_bounded L'" by (simp add: solar_bounded_def)
    with u Pair Update show ?thesis by (simp add: solar_step_def)
  qed
qed

text \<open>
  Claim C7. After any run of note-on, note-off and update calls on a fresh solar layer
  whose note-on events carry notes in \<open>0..127\<close> (velocities are clamped by the code, so
  any velocity will do), \<^verbatim>\<open>emaEnergy\<close> lies in \<open>[0, 3]\<close>, \<^verbatim>\<open>emaPitch\<close> in \<open>[0, 127]\<close>, and
  each of brightness, noise scale, turbulence and corona in \<^verbatim>\<open>u_params\<close> in \<open>[0, 1]\<close>.
\<close>

theorem ema_and_params_bounded:
  assumes "\<forall>ev\<in>set evs. midi_note ev"
  shows "\<exists>L e'. run (solar_step setHSL) evs (createSolarLayer e) = Inr (L, e')
      \<and> 0 \<le> emaEnergy (state L) \<and> emaEnergy (state L) \<le> 3
      \<and> 0 \<le> emaPitch (state L) \<and> emaPitch (state L) \<le> 127
      \<and> 0 \<le> v4x (u_params L) \<and> v4x (u_params L) \<le> 1
      \<and> 0 \<le> v4y (u_params L) \<and> v4y (u_params L) \<le> 1
      \<and> 0 \<le> v4z (u_params L) \<and> v4z (u_params L) \<le> 1
      \<and> 0 \<le> v4w (u_params L) \<and> v4w (u_params L) \<le> 1"
proof -
  have init: "solar_wf (fst (createSolarLayer e)) \<and> solar_bounded (fst (createSolarLayer e))"
    by (simp add: created_wf created_bounded)
  from run_invariant[of "\<lambda>s. solar_wf (fst s) \<and> solar_bounded (fst s)" "createSolarLayer e" evs
      midi_note "solar_step setHSL", OF init assms solar_step_bounded]
  obtain t where "run (solar_step setHSL) evs (createSolarLayer e) = Inr t"
    "solar_bounded (fst t)" by blast
  then show ?thesis
    by (cases t) (simp add: solar_bounded_def)
qed

theorem ema_and_params_bounded_witness:
  "\<exists>L e'. run (solar_step (\<lambda>h s l. \<lparr>col_r = l, col_g = l, col_b = l\<rparr>))
              [NoteOn (60, 100), NoteOn (127, 127), Update 16, Update 10000]
              (createSolarLayer env0) = Inr (L, e')
      \<and> 0 \<le> emaEnergy (state L) \<and> emaEnergy (state L) \<le> 3
      \<and> 0 \<le> emaPitch (state L) \<and> emaPitch (state L) \<le> 127
      \<and> 0 \<le> v4x (u_params L) \<and> v4x (u_params L) \<le> 1
      \<and> 0 \<le> v4y (u_params L) \<and> v4y (u_params L) \<le> 1
      \<and> 0 \<le> v4z (u_params L) \<and> v4z (u_params L) \<le> 1
      \<and> 0 \<le> v4w (u_params L) \<and> v4w (u_params L) \<le> 1"
proof -
  have "\<forall>ev\<in>set [NoteOn (60, 100), NoteOn (127, 127), Update 16, Update 10000 :: (nat \<times> real, nat) event].
          midi_note ev"
    by (simp add: midi_note_def)
  from ema_and_params_bounded[OF this] show ?thesis .
qed

end
